theory Spec2Isabelle
  imports Complex_Main "HOL-Library.Word"
begin

section \<open>Double-precision values\<close>

text \<open>
  The C++ type \<open>double\<close>, as far as the kinetic path looks at it: a value is finite,
  one of the two infinities, or not a number. Finite values carry a real number and
  their arithmetic is exact; rounding and overflow are not part of this model. The
  special values follow IEEE 754.
\<close>

datatype double = Fin real | PInf | NInf | NaN

fun isfinite :: "double \<Rightarrow> bool" where
  "isfinite (Fin x) = True"
| "isfinite PInf = False"
| "isfinite NInf = False"
| "isfinite NaN = False"

fun dadd :: "double \<Rightarrow> double \<Rightarrow> double" where
  "dadd (Fin x) (Fin y) = Fin (x + y)"
| "dadd NaN y = NaN"
| "dadd x NaN = NaN"
| "dadd PInf NInf = NaN"
| "dadd NInf PInf = NaN"
| "dadd PInf y = PInf"
| "dadd x PInf = PInf"
| "dadd NInf y = NInf"
| "dadd x NInf = NInf"

fun dneg :: "double \<Rightarrow> double" where
  "dneg (Fin x) = Fin (- x)"
| "dneg PInf = NInf"
| "dneg NInf = PInf"
| "dneg NaN = NaN"

fun dmul :: "double \<Rightarrow> double \<Rightarrow> double" where
  "dmul (Fin x) (Fin y) = Fin (x * y)"
| "dmul NaN y = NaN"
| "dmul x NaN = NaN"
| "dmul (Fin x) y = (if x = 0 then NaN else if 0 < x then y else dneg y)"
| "dmul x (Fin y) = (if y = 0 then NaN else if 0 < y then x else dneg x)"
| "dmul PInf y = y"
| "dmul NInf y = dneg y"

fun dabs :: "double \<Rightarrow> double" where
  "dabs (Fin x) = Fin \<bar>x\<bar>"
| "dabs PInf = PInf"
| "dabs NInf = PInf"
| "dabs NaN = NaN"

text \<open>The comparison \<open><\<close> of doubles: false as soon as one side is not a number.\<close>

fun dless :: "double \<Rightarrow> double \<Rightarrow> bool" where
  "dless (Fin x) (Fin y) = (x < y)"
| "dless NaN y = False"
| "dless x NaN = False"
| "dless x NInf = False"
| "dless PInf y = False"
| "dless x y = True"

section \<open>Vectors, matrices and index lists\<close>

text \<open>
  A dynamic Eigen vector is a list of doubles. A dynamic Eigen matrix knows its two
  dimensions and holds its coefficients row by row. The operations below always
  build a matrix whose rows agree with its dimensions; the size conditions that Eigen
  asserts are checked by the callers, which fail with \<open>DimensionMismatch\<close>.
\<close>

type_synonym Vector = "double list"

type_synonym Indices = "nat list"

record Matrix =
  nrows :: nat
  ncols :: nat
  coeffs :: "double list list"

definition coeff :: "Matrix \<Rightarrow> nat \<Rightarrow> nat \<Rightarrow> double" where
  "coeff M i j = coeffs M ! i ! j"

definition dot :: "Vector \<Rightarrow> Vector \<Rightarrow> double" where
  "dot x y = foldr dadd (map2 dmul x y) (Fin 0)"

text \<open>\<open>M.resize(m, n)\<close>: the coefficients are kept when the size does not change and are
  unspecified otherwise (zero here); every caller overwrites all of them.\<close>

definition resize :: "nat \<Rightarrow> nat \<Rightarrow> Matrix \<Rightarrow> Matrix" where
  "resize m n M =
     (if nrows M = m \<and> ncols M = n then M
      else \<lparr>nrows = m, ncols = n, coeffs = replicate m (replicate n (Fin 0))\<rparr>)"

text \<open>Modelled from the spec: the helpers \<open>tr\<close>, \<open>rows\<close> and \<open>cols\<close> of
  Reaktoro/Common/Matrix.hpp are not among the sources; \<open>tr\<close> is the transpose,
  \<open>rows(v, idx)\<close> the entries of a vector at the given indices and \<open>cols(M, idx)\<close>
  the columns of a matrix restricted to the given indices.\<close>

definition tr :: "Matrix \<Rightarrow> Matrix" where
  "tr M = \<lparr>nrows = ncols M, ncols = nrows M,
           coeffs = map (\<lambda>j. map (\<lambda>i. coeff M i j) [0..<nrows M]) [0..<ncols M]\<rparr>"

definition rows :: "Vector \<Rightarrow> Indices \<Rightarrow> Vector" where
  "rows v idx = map (\<lambda>i. v ! i) idx"

definition cols :: "Matrix \<Rightarrow> Indices \<Rightarrow> Matrix" where
  "cols M idx = \<lparr>nrows = nrows M, ncols = length idx,
                 coeffs = map (\<lambda>i. map (\<lambda>j. coeff M i j) idx) [0..<nrows M]\<rparr>"

definition indices_within :: "Indices \<Rightarrow> nat \<Rightarrow> bool" where
  "indices_within idx n = list_all (\<lambda>i. i < n) idx"

text \<open>The products \<open>X * Y\<close> and \<open>X * v\<close> of Eigen.\<close>

definition mat_mul :: "Matrix \<Rightarrow> Matrix \<Rightarrow> Matrix" where
  "mat_mul X Y = \<lparr>nrows = nrows X, ncols = ncols Y,
     coeffs = map (\<lambda>i. map (\<lambda>j. dot (coeffs X ! i) (map (\<lambda>k. coeff Y k j) [0..<nrows Y]))
                        [0..<ncols Y]) [0..<nrows X]\<rparr>"

definition mat_vec :: "Matrix \<Rightarrow> Vector \<Rightarrow> Vector" where
  "mat_vec X v = map (\<lambda>i. dot (coeffs X ! i) v) [0..<nrows X]"

text \<open>\<open>v.segment(start, len)\<close> read, and assigned from a vector of \<open>len\<close> entries.\<close>

definition segment :: "Vector \<Rightarrow> nat \<Rightarrow> nat \<Rightarrow> Vector" where
  "segment v start len = take len (drop start v)"

definition segment_assign :: "Vector \<Rightarrow> nat \<Rightarrow> nat \<Rightarrow> Vector \<Rightarrow> Vector" where
  "segment_assign v start len w = take start v @ w @ drop (start + len) v"

text \<open>\<open>M.topRows\<close>, \<open>M.bottomRows\<close>, \<open>M.leftCols\<close> and \<open>M.rightCols\<close>, assigned from a
  matrix of the block's size.\<close>

definition topRows_assign :: "Matrix \<Rightarrow> nat \<Rightarrow> Matrix \<Rightarrow> Matrix" where
  "topRows_assign M k X = M\<lparr>coeffs := coeffs X @ drop k (coeffs M)\<rparr>"

definition bottomRows_assign :: "Matrix \<Rightarrow> nat \<Rightarrow> Matrix \<Rightarrow> Matrix" where
  "bottomRows_assign M k X = M\<lparr>coeffs := take (nrows M - k) (coeffs M) @ coeffs X\<rparr>"

definition leftCols_assign :: "Matrix \<Rightarrow> nat \<Rightarrow> Matrix \<Rightarrow> Matrix" where
  "leftCols_assign M k X =
     M\<lparr>coeffs := map (\<lambda>i. coeffs X ! i @ drop k (coeffs M ! i)) [0..<nrows M]\<rparr>"

definition rightCols_assign :: "Matrix \<Rightarrow> nat \<Rightarrow> Matrix \<Rightarrow> Matrix" where
  "rightCols_assign M k X =
     M\<lparr>coeffs := map (\<lambda>i. take (ncols M - k) (coeffs M ! i) @ coeffs X ! i) [0..<nrows M]\<rparr>"

section \<open>The collaborators of the kinetic path\<close>

datatype error = DimensionMismatch | EquilibriumFailure | IntegratorFailure

text \<open>A \<open>ChemicalVector\<close>: the value of a vector quantity and its derivative with
  respect to the species amounts.\<close>

record ChemicalVector =
  val :: Vector
  ddn :: Matrix

text \<open>Modelled from the spec: the class \<open>ChemicalState\<close> is not among the sources; the
  spec gives it a temperature, a pressure and the vector of species molar amounts.
  \<open>setSpeciesAmounts(values, indices)\<close> writes \<open>values[i]\<close> at position
  \<open>indices[i]\<close>.\<close>

record ChemicalState =
  temperature :: double
  pressure :: double
  speciesAmounts :: Vector

definition setSpeciesAmounts :: "Vector \<Rightarrow> Indices \<Rightarrow> ChemicalState \<Rightarrow> ChemicalState" where
  "setSpeciesAmounts values indices state =
     state\<lparr>speciesAmounts :=
       fold (\<lambda>(i, v) n. n[i := v]) (zip indices values) (speciesAmounts state)\<rparr>"

text \<open>Modelled from the spec: the class \<open>Partition\<close> is not among the sources; these
  are the index sets and the formula sub-matrix that \<open>setPartition\<close> queries.\<close>

record Partition =
  indicesEquilibriumSpecies :: Indices
  indicesKineticSpecies :: Indices
  indicesEquilibriumElements :: Indices
  indicesKineticElements :: Indices
  formulaMatrixEquilibriumSpecies :: Matrix

section \<open>The state of \<open>KineticPath::Impl\<close>\<close>

text \<open>
  The data members of \<open>KineticPath::Impl\<close>. The members \<open>reactions\<close>, \<open>system\<close> and
  \<open>equilibrium\<close> are collaborators and appear below as parameters; \<open>ode\<close> is the state
  of the integrator, of a type left open. The member \<open>Re\<close> is written \<open>Re'\<close>.
\<close>

text \<open>Modelled from the spec: the class \<open>KineticOptions\<close> is not among the sources; \<open>solve\<close>
  reads \<open>options.output.active\<close> and the output functions read \<open>options.output.format\<close>.\<close>

record KineticOptions =
  output_active :: bool
  output_format :: string

record 'o Impl =
  partition :: Partition
  options :: KineticOptions
  ode :: 'o
  ispecies_e :: Indices
  ispecies_k :: Indices
  ielements_e :: Indices
  ielements_k :: Indices
  Ne :: nat
  Nk :: nat
  Ee :: nat
  Ek :: nat
  We :: Matrix
  Se :: Matrix
  Sk :: Matrix
  A :: Matrix
  T :: double
  P :: double
  ne :: Vector
  nk :: Vector
  be :: Vector
  benk :: Vector
  a :: ChemicalVector
  r :: ChemicalVector
  Be :: Matrix
  Re' :: Matrix
  Rk :: Matrix
  R :: Matrix

text \<open>
  The chemical state is passed by reference and changed in place, and the callbacks
  handed to the integrator change both it and the members of \<open>Impl\<close>. The model
  threads the pair of the two through every call; what a call leaves behind when it
  fails is the pair at the moment of the failure.
\<close>

type_synonym 'o World = "'o Impl \<times> ChemicalState"

type_synonym 'o ODEFunction =
  "double \<Rightarrow> Vector \<Rightarrow> Vector \<Rightarrow> 'o World \<Rightarrow> ((error + int) \<times> Vector) \<times> 'o World"

type_synonym 'o ODEJacobian =
  "double \<Rightarrow> Vector \<Rightarrow> Matrix \<Rightarrow> 'o World \<Rightarrow> ((error + int) \<times> Matrix) \<times> 'o World"

text \<open>
  The collaborators, none of which is among the sources, taken as parameters: the
  reaction system (\<open>stoichiometricMatrix\<close>, \<open>numReactions\<close>, \<open>rates\<close>), the chemical
  system (\<open>activities\<close>), the equilibrium path with the partition set
  (\<open>equilibrium.solve\<close>, which changes the state and may fail, and \<open>equilibrium.dndb\<close>)
  and the integrator (\<open>ode.initialize\<close> together with \<open>ode.setProblem\<close>,
  \<open>ode.integrate\<close>, \<open>ode.solve\<close>). The integrator receives the two callbacks at each
  call; it returns the time and the vector it has reached, or the error it raises.
\<close>

record 'o Collaborators =
  stoichiometricMatrix :: Matrix
  numReactions :: nat
  activities :: "double \<Rightarrow> double \<Rightarrow> Vector \<Rightarrow> ChemicalVector"
  rates :: "double \<Rightarrow> double \<Rightarrow> Vector \<Rightarrow> ChemicalVector \<Rightarrow> ChemicalVector"
  equilibrium_solve :: "ChemicalState \<Rightarrow> Vector \<Rightarrow> error option \<times> ChemicalState"
  equilibrium_dndb :: "ChemicalState \<Rightarrow> Matrix"
  ode_initialize :: "double \<Rightarrow> Vector \<Rightarrow> 'o \<Rightarrow> 'o"
  ode_integrate :: "'o ODEFunction \<Rightarrow> 'o ODEJacobian \<Rightarrow> double \<Rightarrow> Vector \<Rightarrow> double
     \<Rightarrow> 'o World \<Rightarrow> (error option \<times> double \<times> Vector) \<times> 'o World"
  ode_solve :: "'o ODEFunction \<Rightarrow> 'o ODEJacobian \<Rightarrow> double \<Rightarrow> double \<Rightarrow> Vector
     \<Rightarrow> 'o World \<Rightarrow> (error option \<times> Vector) \<times> 'o World"

section \<open>The operations of \<open>KineticPath::Impl\<close>\<close>

subsection \<open>\<open>setPartition\<close>\<close>

definition setPartition :: "'o Collaborators \<Rightarrow> Partition \<Rightarrow> 'o Impl \<Rightarrow> error + 'o Impl" where
  "setPartition sys partition' I =
     (let I = I\<lparr>partition := partition'\<rparr>;
          I = I\<lparr>ispecies_e := indicesEquilibriumSpecies (partition I)\<rparr>;
          I = I\<lparr>ispecies_k := indicesKineticSpecies (partition I)\<rparr>;
          I = I\<lparr>ielements_e := indicesEquilibriumElements (partition I)\<rparr>;
          I = I\<lparr>ielements_k := indicesKineticElements (partition I)\<rparr>;
          I = I\<lparr>Ne := length (ispecies_e I)\<rparr>;
          I = I\<lparr>Nk := length (ispecies_k I)\<rparr>;
          I = I\<lparr>Ee := length (ielements_e I)\<rparr>;
          I = I\<lparr>Ek := length (ielements_k I)\<rparr>;
          I = I\<lparr>We := formulaMatrixEquilibriumSpecies (partition I)\<rparr>
      in if \<not> (indices_within (ispecies_e I) (ncols (stoichiometricMatrix sys))
              \<and> indices_within (ispecies_k I) (ncols (stoichiometricMatrix sys)))
         then Inl DimensionMismatch
         else
     (let I = I\<lparr>Se := cols (stoichiometricMatrix sys) (ispecies_e I)\<rparr>;
          I = I\<lparr>Sk := cols (stoichiometricMatrix sys) (ispecies_k I)\<rparr>
      in if \<not> (ncols (We I) = nrows (tr (Se I)) \<and> nrows (We I) = Ee I
              \<and> ncols (tr (Se I)) = numReactions sys \<and> ncols (tr (Sk I)) = numReactions sys)
         then Inl DimensionMismatch
         else
     (let I = I\<lparr>A := resize (Ee I + Nk I) (numReactions sys) (A I)\<rparr>;
          I = I\<lparr>A := topRows_assign (A I) (Ee I) (mat_mul (We I) (tr (Se I)))\<rparr>;
          I = I\<lparr>A := bottomRows_assign (A I) (Nk I) (tr (Sk I))\<rparr>;
          I = I\<lparr>R := resize (numReactions sys) (Ee I + Nk I) (R I)\<rparr>
      in Inr I)))"

subsection \<open>\<open>function\<close>: the right-hand side of the differential system\<close>

text \<open>The threshold \<open>1.0e-50\<close> of the lower bound, taken as the real number \<open>1 / 10 ^ 50\<close>.\<close>

definition lower_bound_threshold :: double where
  "lower_bound_threshold = Fin (1 / 10 ^ 50)"

text \<open>The first loop of \<open>function\<close> returns 1 at the first entry of \<open>u\<close> that is not
  finite.\<close>

definition has_nonfinite :: "Vector \<Rightarrow> bool" where
  "has_nonfinite u = list_ex (\<lambda>x. \<not> isfinite x) u"

text \<open>The last loop of \<open>function\<close>, over every index of \<open>u\<close>.\<close>

definition impose_lower_bound :: "Vector \<Rightarrow> Vector \<Rightarrow> Vector" where
  "impose_lower_bound u res =
     fold (\<lambda>i res. if dless (dabs (u ! i)) lower_bound_threshold \<and> dless (res ! i) (Fin 0)
                    then res[i := Fin 0] else res)
          [0..<length u] res"

text \<open>
  \<open>function(state, t, u, res)\<close>, named \<open>Impl_function\<close> here. The result is the
  returned code (or the error raised), the buffer \<open>res\<close>, and the members and the
  chemical state as the call leaves them.
\<close>

definition Impl_function :: "'o Collaborators \<Rightarrow> 'o ODEFunction" where
  "Impl_function sys t u res = (\<lambda>(I, state).
     if \<not> Ee I + Nk I \<le> length u then ((Inl DimensionMismatch, res), (I, state))
     else
     (let I = I\<lparr>be := segment u 0 (Ee I)\<rparr>;
          I = I\<lparr>nk := segment u (Ee I) (Nk I)\<rparr>
      in if has_nonfinite u then ((Inr 1, res), (I, state))
         else
     (let state = setSpeciesAmounts (nk I) (ispecies_k I) state
      in case equilibrium_solve sys state (be I) of
           (Some e, state) \<Rightarrow> ((Inl e, res), (I, state))
         | (None, state) \<Rightarrow>
     (let n = speciesAmounts state;
          I = I\<lparr>a := activities sys (T I) (P I) n\<rparr>;
          I = I\<lparr>r := rates sys (T I) (P I) n (a I)\<rparr>
      in if \<not> (ncols (We I) = nrows (tr (Se I)) \<and> ncols (tr (Se I)) = length (val (r I))
              \<and> ncols (tr (Sk I)) = length (val (r I))
              \<and> nrows (We I) = Ee I \<and> nrows (tr (Sk I)) = Nk I
              \<and> Ee I + Nk I \<le> length res \<and> length u \<le> length res)
         then ((Inl DimensionMismatch, res), (I, state))
         else
     (let res = segment_assign res 0 (Ee I) (mat_vec (mat_mul (We I) (tr (Se I))) (val (r I)));
          res = segment_assign res (Ee I) (Nk I) (mat_vec (tr (Sk I)) (val (r I)));
          res = impose_lower_bound u res
      in ((Inr 0, res), (I, state)))))))"

subsection \<open>\<open>jacobian\<close>\<close>

definition jacobian :: "'o Collaborators \<Rightarrow> 'o ODEJacobian" where
  "jacobian sys t u res = (\<lambda>(I, state).
     if \<not> Ee I + Nk I \<le> length u then ((Inl DimensionMismatch, res), (I, state))
     else
     (let I = I\<lparr>be := segment u 0 (Ee I)\<rparr>;
          I = I\<lparr>nk := segment u (Ee I) (Nk I)\<rparr>;
          state = setSpeciesAmounts (nk I) (ispecies_k I) state
      in case equilibrium_solve sys state (be I) of
           (Some e, state) \<Rightarrow> ((Inl e, res), (I, state))
         | (None, state) \<Rightarrow>
     (let I = I\<lparr>Be := equilibrium_dndb sys state\<rparr>
      in if \<not> (indices_within (ispecies_e I) (ncols (ddn (r I)))
              \<and> indices_within (ispecies_k I) (ncols (ddn (r I))))
         then ((Inl DimensionMismatch, res), (I, state))
         else
     (let I = I\<lparr>Re' := cols (ddn (r I)) (ispecies_e I)\<rparr>;
          I = I\<lparr>Rk := cols (ddn (r I)) (ispecies_k I)\<rparr>
      in if \<not> (ncols (Re' I) = nrows (Be I) \<and> nrows (Re' I) = nrows (R I)
              \<and> ncols (Be I) = Ee I \<and> Ee I \<le> ncols (R I)
              \<and> nrows (Rk I) = nrows (R I) \<and> ncols (Rk I) = Nk I \<and> Nk I \<le> ncols (R I)
              \<and> ncols (A I) = nrows (R I))
         then ((Inl DimensionMismatch, res), (I, state))
         else
     (let I = I\<lparr>R := leftCols_assign (R I) (Ee I) (mat_mul (Re' I) (Be I))\<rparr>;
          I = I\<lparr>R := rightCols_assign (R I) (Nk I) (Rk I)\<rparr>;
          res = mat_mul (A I) (R I)
      in ((Inr 0, res), (I, state)))))))"

subsection \<open>\<open>initialize\<close>\<close>

text \<open>\<open>v.resize(n)\<close> of a vector, as \<open>resize\<close> of a matrix.\<close>

definition vresize :: "nat \<Rightarrow> Vector \<Rightarrow> Vector" where
  "vresize n v = (if length v = n then v else replicate n (Fin 0))"

text \<open>
  The two callbacks that \<open>initialize\<close> builds call \<open>function\<close> and \<open>jacobian\<close> on the
  state it was given; \<open>ode.setProblem\<close> and \<open>ode.initialize\<close> are the collaborator's
  \<open>ode_initialize\<close>, and the callbacks are passed to the integrator where it runs.
  The model takes the state of later calls to be that same object.
\<close>

definition initialize :: "'o Collaborators \<Rightarrow> double \<Rightarrow> 'o World \<Rightarrow> error option \<times> 'o World" where
  "initialize sys tstart = (\<lambda>(I, state).
     (let I = I\<lparr>T := temperature state\<rparr>;
          I = I\<lparr>P := pressure state\<rparr>;
          n = speciesAmounts state
      in if \<not> (indices_within (ispecies_e I) (length n) \<and> indices_within (ispecies_k I) (length n))
         then (Some DimensionMismatch, (I, state))
         else
     (let I = I\<lparr>ne := rows n (ispecies_e I)\<rparr>;
          I = I\<lparr>nk := rows n (ispecies_k I)\<rparr>;
          I = I\<lparr>benk := vresize (Ee I + Nk I) (benk I)\<rparr>
      in if \<not> (ncols (We I) = length (ne I) \<and> nrows (We I) = Ee I \<and> length (nk I) = Nk I)
         then (Some DimensionMismatch, (I, state))
         else
     (let I = I\<lparr>benk := segment_assign (benk I) 0 (Ee I) (mat_vec (We I) (ne I))\<rparr>;
          I = I\<lparr>benk := segment_assign (benk I) (Ee I) (Nk I) (nk I)\<rparr>;
          I = I\<lparr>ode := ode_initialize sys tstart (benk I) (ode I)\<rparr>
      in (None, (I, state))))))"

subsection \<open>\<open>step\<close> and \<open>solve\<close>\<close>

text \<open>The statements that end \<open>step\<close>, \<open>solveWithoutOutput\<close> and \<open>solveWithOutput\<close>:
  split \<open>benk\<close>, write the kinetic species, solve the equilibrium.\<close>

definition update_composition :: "'o Collaborators \<Rightarrow> 'o World \<Rightarrow> error option \<times> 'o World" where
  "update_composition sys = (\<lambda>(I, state).
     if \<not> Ee I + Nk I \<le> length (benk I) then (Some DimensionMismatch, (I, state))
     else
     (let I = I\<lparr>be := segment (benk I) 0 (Ee I)\<rparr>;
          I = I\<lparr>nk := segment (benk I) (Ee I) (Nk I)\<rparr>;
          state = setSpeciesAmounts (nk I) (ispecies_k I) state
      in case equilibrium_solve sys state (be I) of (e, state) \<Rightarrow> (e, (I, state))))"

text \<open>\<open>step(state, t, tfinal)\<close>; the result carries the time reached.\<close>

definition step_tfinal :: "'o Collaborators \<Rightarrow> double \<Rightarrow> double \<Rightarrow> 'o World
    \<Rightarrow> (error option \<times> double) \<times> 'o World" where
  "step_tfinal sys t tfinal = (\<lambda>(I, state).
     (let n = speciesAmounts state
      in if \<not> (indices_within (ispecies_e I) (length n) \<and> indices_within (ispecies_k I) (length n))
         then ((Some DimensionMismatch, t), (I, state))
         else
     (let I = I\<lparr>ne := rows n (ispecies_e I)\<rparr>;
          I = I\<lparr>nk := rows n (ispecies_k I)\<rparr>
      in if \<not> (ncols (We I) = length (ne I) \<and> nrows (We I) = Ee I \<and> length (nk I) = Nk I
              \<and> Ee I + Nk I \<le> length (benk I))
         then ((Some DimensionMismatch, t), (I, state))
         else
     (let I = I\<lparr>benk := segment_assign (benk I) 0 (Ee I) (mat_vec (We I) (ne I))\<rparr>;
          I = I\<lparr>benk := segment_assign (benk I) (Ee I) (Nk I) (nk I)\<rparr>
      in case ode_integrate sys (Impl_function sys) (jacobian sys) t (benk I) tfinal (I, state) of
           ((Some e, t, u), (I, state)) \<Rightarrow> ((Some e, t), (I\<lparr>benk := u\<rparr>, state))
         | ((None, t, u), (I, state)) \<Rightarrow>
             (case update_composition sys (I\<lparr>benk := u\<rparr>, state) of
                (e, w) \<Rightarrow> ((e, t), w))))))"

text \<open>\<open>step(state, t)\<close>: \<open>tfinal\<close> is \<open>unsigned(-1)\<close> converted to \<open>double\<close>, for an
  \<open>unsigned\<close> of 32 bits.\<close>

definition step_default_tfinal :: double where
  "step_default_tfinal = Fin (real (unat (- 1 :: 32 word)))"

definition step :: "'o Collaborators \<Rightarrow> double \<Rightarrow> 'o World \<Rightarrow> (error option \<times> double) \<times> 'o World" where
  "step sys t = step_tfinal sys t step_default_tfinal"

definition solveWithoutOutput :: "'o Collaborators \<Rightarrow> double \<Rightarrow> double \<Rightarrow> 'o World
    \<Rightarrow> error option \<times> 'o World" where
  "solveWithoutOutput sys t dt w =
     (case initialize sys t w of
        (Some e, w) \<Rightarrow> (Some e, w)
      | (None, (I, state)) \<Rightarrow>
          (case ode_solve sys (Impl_function sys) (jacobian sys) t dt (benk I) (I, state) of
             ((Some e, u), (I, state)) \<Rightarrow> (Some e, (I\<lparr>benk := u\<rparr>, state))
           | ((None, u), (I, state)) \<Rightarrow> update_composition sys (I\<lparr>benk := u\<rparr>, state)))"

text \<open>The loop of \<open>solveWithOutput\<close>; it need not end, so its result is optional.
  \<open>outputHeader\<close> and \<open>outputState\<close> only print.\<close>

partial_function (option) integrate_loop :: "'o Collaborators \<Rightarrow> double \<Rightarrow> double \<Rightarrow> 'o World
    \<Rightarrow> (error option \<times> 'o World) option" where
  "integrate_loop sys t tfinal w =
     (if dless t tfinal
      then (case ode_integrate sys (Impl_function sys) (jacobian sys) t (benk (fst w)) tfinal w of
              ((Some e, t, u), (I, state)) \<Rightarrow> Some (Some e, (I\<lparr>benk := u\<rparr>, state))
            | ((None, t, u), (I, state)) \<Rightarrow> integrate_loop sys t tfinal (I\<lparr>benk := u\<rparr>, state))
      else Some (None, w))"

declare integrate_loop.simps [code]

definition solveWithOutput :: "'o Collaborators \<Rightarrow> double \<Rightarrow> double \<Rightarrow> 'o World
    \<Rightarrow> (error option \<times> 'o World) option" where
  "solveWithOutput sys t dt w =
     (case initialize sys t w of
        (Some e, w) \<Rightarrow> Some (Some e, w)
      | (None, w) \<Rightarrow>
          (let tfinal = dadd t dt
           in case integrate_loop sys t tfinal w of
                None \<Rightarrow> None
              | Some (Some e, w) \<Rightarrow> Some (Some e, w)
              | Some (None, w) \<Rightarrow> Some (update_composition sys w)))"

definition solve :: "'o Collaborators \<Rightarrow> double \<Rightarrow> double \<Rightarrow> 'o World
    \<Rightarrow> (error option \<times> 'o World) option" where
  "solve sys t dt = (\<lambda>(I, state).
     if output_active (options I) then solveWithOutput sys t dt (I, state)
     else Some (solveWithoutOutput sys t dt (I, state)))"

section \<open>A reaction system of two species and one reaction\<close>

text \<open>
  One equilibrium species (index 0) made of one element, one kinetic species
  (index 1), and one reaction that turns the first into the second at the rate
  \<open>n\<^sub>1 - n\<^sub>0\<close>. The equilibrium solve sets the amount of species 0 to the element
  abundance it is given and fails on a negative abundance, changing nothing. The
  integrator takes one explicit Euler step of length at most 1.
\<close>

definition demo_partition :: Partition where
  "demo_partition = \<lparr>indicesEquilibriumSpecies = [0], indicesKineticSpecies = [1],
     indicesEquilibriumElements = [0], indicesKineticElements = [0],
     formulaMatrixEquilibriumSpecies = \<lparr>nrows = 1, ncols = 1, coeffs = [[Fin 1]]\<rparr>\<rparr>"

definition demo_activities :: "double \<Rightarrow> double \<Rightarrow> Vector \<Rightarrow> ChemicalVector" where
  "demo_activities Tv Pv n =
     \<lparr>val = n, ddn = \<lparr>nrows = 2, ncols = 2, coeffs = [[Fin 1, Fin 0], [Fin 0, Fin 1]]\<rparr>\<rparr>"

definition demo_rates :: "double \<Rightarrow> double \<Rightarrow> Vector \<Rightarrow> ChemicalVector \<Rightarrow> ChemicalVector" where
  "demo_rates Tv Pv n av =
     \<lparr>val = [dadd (n ! 1) (dneg (n ! 0))],
      ddn = \<lparr>nrows = 1, ncols = 2, coeffs = [[Fin (- 1), Fin 1]]\<rparr>\<rparr>"

definition demo_equilibrium_solve :: "ChemicalState \<Rightarrow> Vector \<Rightarrow> error option \<times> ChemicalState" where
  "demo_equilibrium_solve state b =
     (if dless (b ! 0) (Fin 0) then (Some EquilibriumFailure, state)
      else (None, state\<lparr>speciesAmounts := (speciesAmounts state)[0 := b ! 0]\<rparr>))"

definition demo_integrate :: "unit ODEFunction \<Rightarrow> unit ODEJacobian \<Rightarrow> double \<Rightarrow> Vector \<Rightarrow> double
    \<Rightarrow> unit World \<Rightarrow> (error option \<times> double \<times> Vector) \<times> unit World" where
  "demo_integrate f j t u tfinal w =
     (let h = (if dless (dadd t (Fin 1)) tfinal then Fin 1 else dadd tfinal (dneg t))
      in case f t u (replicate (length u) (Fin 0)) w of
           ((Inl e, res), w) \<Rightarrow> ((Some e, t, u), w)
         | ((Inr c, res), w) \<Rightarrow>
             if c \<noteq> 0 then ((Some IntegratorFailure, t, u), w)
             else ((None, dadd t h, map2 dadd u (map (dmul h) res)), w))"

definition demo_solve :: "unit ODEFunction \<Rightarrow> unit ODEJacobian \<Rightarrow> double \<Rightarrow> double \<Rightarrow> Vector
    \<Rightarrow> unit World \<Rightarrow> (error option \<times> Vector) \<times> unit World" where
  "demo_solve f j t dt u w =
     (case f t u (replicate (length u) (Fin 0)) w of
        ((Inl e, res), w) \<Rightarrow> ((Some e, u), w)
      | ((Inr c, res), w) \<Rightarrow>
          if c \<noteq> 0 then ((Some IntegratorFailure, u), w)
          else ((None, map2 dadd u (map (dmul dt) res)), w))"

definition demo_sys :: "unit Collaborators" where
  "demo_sys = \<lparr>stoichiometricMatrix = \<lparr>nrows = 1, ncols = 2, coeffs = [[Fin (- 1), Fin 1]]\<rparr>,
     numReactions = 1, activities = demo_activities, rates = demo_rates,
     equilibrium_solve = demo_equilibrium_solve,
     equilibrium_dndb = (\<lambda>state. \<lparr>nrows = 1, ncols = 1, coeffs = [[Fin 1]]\<rparr>),
     ode_initialize = (\<lambda>t u s. s), ode_integrate = demo_integrate, ode_solve = demo_solve\<rparr>"

definition empty_Matrix :: Matrix where
  "empty_Matrix = \<lparr>nrows = 0, ncols = 0, coeffs = []\<rparr>"

definition empty_ChemicalVector :: ChemicalVector where
  "empty_ChemicalVector = \<lparr>val = [], ddn = empty_Matrix\<rparr>"

text \<open>The members before the constructor has called \<open>setPartition\<close>.\<close>

definition demo_Impl0 :: "unit Impl" where
  "demo_Impl0 = \<lparr>partition = demo_partition,
     options = \<lparr>output_active = False, output_format = []\<rparr>, ode = (),
     ispecies_e = [], ispecies_k = [], ielements_e = [], ielements_k = [],
     Ne = 0, Nk = 0, Ee = 0, Ek = 0,
     We = empty_Matrix, Se = empty_Matrix, Sk = empty_Matrix, A = empty_Matrix,
     T = Fin 0, P = Fin 0, ne = [], nk = [], be = [], benk = [],
     a = empty_ChemicalVector, r = empty_ChemicalVector,
     Be = empty_Matrix, Re' = empty_Matrix, Rk = empty_Matrix, R = empty_Matrix\<rparr>"

text \<open>The members after \<open>setPartition\<close> on the two-species system, written out.\<close>

definition demo_Impl :: "unit Impl" where
  "demo_Impl = demo_Impl0\<lparr>ispecies_e := [0], ispecies_k := [1],
     ielements_e := [0], ielements_k := [0], Ne := 1, Nk := 1, Ee := 1, Ek := 1,
     We := \<lparr>nrows = 1, ncols = 1, coeffs = [[Fin 1]]\<rparr>,
     Se := \<lparr>nrows = 1, ncols = 1, coeffs = [[Fin (- 1)]]\<rparr>,
     Sk := \<lparr>nrows = 1, ncols = 1, coeffs = [[Fin 1]]\<rparr>,
     A := \<lparr>nrows = 2, ncols = 1, coeffs = [[Fin (- 1)], [Fin 1]]\<rparr>,
     R := \<lparr>nrows = 1, ncols = 2, coeffs = [[Fin 0, Fin 0]]\<rparr>\<rparr>"

definition demo_state :: "Vector \<Rightarrow> ChemicalState" where
  "demo_state n = \<lparr>temperature = Fin 300, pressure = Fin 100000, speciesAmounts = n\<rparr>"

section \<open>Notions used in the statements\<close>

text \<open>Two states of the members agree on what \<open>setPartition\<close> sets and nothing else
  changes: the index lists, the sizes, the matrices \<open>We\<close>, \<open>Se\<close>, \<open>Sk\<close>, \<open>A\<close>, and the
  dimensions of \<open>R\<close>.\<close>

definition same_partition :: "'o Impl \<Rightarrow> 'o Impl \<Rightarrow> bool" where
  "same_partition I J \<longleftrightarrow>
     ispecies_e I = ispecies_e J \<and> ispecies_k I = ispecies_k J \<and> Ee I = Ee J \<and> Nk I = Nk J
     \<and> We I = We J \<and> Se I = Se J \<and> Sk I = Sk J \<and> A I = A J
     \<and> nrows (R I) = nrows (R J) \<and> ncols (R I) = ncols (R J)"

text \<open>One pass of the last loop of \<open>function\<close>, at index \<open>i\<close>.\<close>

definition clamp_at :: "Vector \<Rightarrow> nat \<Rightarrow> Vector \<Rightarrow> Vector" where
  "clamp_at u i res = (if dless (dabs (u ! i)) lower_bound_threshold \<and> dless (res ! i) (Fin 0)
                    then res[i := Fin 0] else res)"


text \<open>The members of the two-species system after a call of \<open>function\<close> at \<open>u = [1, 0]\<close>,
  and after \<open>initialize\<close> on the amounts \<open>[2, 2]\<close>.\<close>

definition demo_Impl_called :: "unit Impl" where
  "demo_Impl_called = demo_Impl\<lparr>be := [Fin 1], nk := [Fin 0],
     a := demo_activities (Fin 0) (Fin 0) [Fin 1, Fin 0],
     r := demo_rates (Fin 0) (Fin 0) [Fin 1, Fin 0] (demo_activities (Fin 0) (Fin 0) [Fin 1, Fin 0])\<rparr>"

definition demo_Impl_initialized :: "unit Impl" where
  "demo_Impl_initialized = demo_Impl\<lparr>T := Fin 300, P := Fin 100000,
     ne := [Fin 2], nk := [Fin 2], benk := [Fin 2, Fin 2]\<rparr>"

text \<open>The matrix \<open>[X | Y]\<close>: the columns of \<open>X\<close> followed by those of \<open>Y\<close>.\<close>

definition hcat :: "Matrix \<Rightarrow> Matrix \<Rightarrow> Matrix" where
  "hcat X Y = \<lparr>nrows = nrows X, ncols = ncols X + ncols Y,
     coeffs = map (\<lambda>i. coeffs X ! i @ coeffs Y ! i) [0..<nrows X]\<rparr>"

text \<open>What \<open>step\<close> has assigned when it calls the integrator: \<open>ne\<close>, \<open>nk\<close> and the two
  segments of \<open>benk\<close>; and the sizes under which these assignments pass the
  assertions of Eigen.\<close>

definition step_members :: "'o Impl \<Rightarrow> ChemicalState \<Rightarrow> 'o Impl" where
  "step_members I state =
     I\<lparr>ne := rows (speciesAmounts state) (ispecies_e I),
       nk := rows (speciesAmounts state) (ispecies_k I),
       benk := segment_assign (segment_assign (benk I) 0 (Ee I)
                 (mat_vec (We I) (rows (speciesAmounts state) (ispecies_e I))))
               (Ee I) (Nk I) (rows (speciesAmounts state) (ispecies_k I))\<rparr>"

definition step_sizes_agree :: "'o Impl \<Rightarrow> ChemicalState \<Rightarrow> bool" where
  "step_sizes_agree I state \<longleftrightarrow>
     indices_within (ispecies_e I) (length (speciesAmounts state))
     \<and> indices_within (ispecies_k I) (length (speciesAmounts state))
     \<and> ncols (We I) = length (ispecies_e I) \<and> nrows (We I) = Ee I
     \<and> length (ispecies_k I) = Nk I \<and> Ee I + Nk I \<le> length (benk I)"

text \<open>What the statements that end \<open>step\<close> and \<open>solve\<close> return on the vector \<open>u\<close> that the
  integrator left in \<open>benk\<close>: the outcome of \<open>equilibrium.solve\<close> for the first \<open>Ee\<close>
  entries of \<open>u\<close>, on the state whose kinetic species were set to the next \<open>Nk\<close>
  entries, with the members \<open>be\<close> and \<open>nk\<close> set to these two segments; on a vector
  too short for the two segments, the assertion of Eigen fails first.\<close>

definition closing_result :: "'o Collaborators \<Rightarrow> Vector \<Rightarrow> 'o Impl \<Rightarrow> ChemicalState
    \<Rightarrow> error option \<times> 'o World" where
  "closing_result sys u I state =
     (if \<not> Ee I + Nk I \<le> length u then (Some DimensionMismatch, (I\<lparr>benk := u\<rparr>, state))
      else
        (fst (equilibrium_solve sys
                (setSpeciesAmounts (segment u (Ee I) (Nk I)) (ispecies_k I) state)
                (segment u 0 (Ee I))),
         (I\<lparr>benk := u, be := segment u 0 (Ee I), nk := segment u (Ee I) (Nk I)\<rparr>,
          snd (equilibrium_solve sys
                (setSpeciesAmounts (segment u (Ee I) (Nk I)) (ispecies_k I) state)
                (segment u 0 (Ee I))))))"

text \<open>What the loop of \<open>solveWithOutput\<close> returns, if it returns: either it was never
  entered, or its result is that of a last call of \<open>ode.integrate\<close>, which either
  raised or reached \<open>tfinal\<close>.\<close>

definition loop_result :: "'o Collaborators \<Rightarrow> double \<Rightarrow> double \<Rightarrow> 'o World
    \<Rightarrow> error option \<times> 'o World \<Rightarrow> bool" where
  "loop_result sys t tfinal w y \<longleftrightarrow>
     (fst y = None \<and> w = snd y \<and> \<not> dless t tfinal)
     \<or> (\<exists>t' w' t1 u1 I'. dless t' tfinal
           \<and> ode_integrate sys (Impl_function sys) (jacobian sys) t' (benk (fst w')) tfinal w' =
               ((fst y, t1, u1), (I', snd (snd y)))
           \<and> fst (snd y) = I'\<lparr>benk := u1\<rparr> \<and> (fst y = None \<longrightarrow> \<not> dless t1 tfinal))"

text \<open>The integrator is not in the sources. Two properties of it are used, each as a
  hypothesis where it is needed. The first: the integrator changes the members and the
  chemical state only through the two callbacks it was given and through its own
  member \<open>ode\<close>, so whatever these preserve, a call of \<open>ode.integrate\<close> preserves.\<close>

definition callbacks_only :: "'o Collaborators \<Rightarrow> bool" where
  "callbacks_only sys \<longleftrightarrow>
     (\<forall>Inv f j t u tfinal w.
        (\<forall>I s x. Inv (I, s) \<longrightarrow> Inv (I\<lparr>ode := x\<rparr>, s)) \<longrightarrow>
        Inv w \<longrightarrow>
        (\<forall>t' u' res' w'. Inv w' \<longrightarrow> Inv (snd (f t' u' res' w'))) \<longrightarrow>
        (\<forall>t' u' res' w'. Inv w' \<longrightarrow> Inv (snd (j t' u' res' w'))) \<longrightarrow>
        Inv (snd (ode_integrate sys f j t u tfinal w)))"


text \<open>The members and states that can be met after \<open>initialize\<close> has returned \<open>w0\<close> and
  before it is called again: the caller may change the chemical state, the options
  and the partition; \<open>function\<close>, \<open>jacobian\<close> and \<open>step\<close> may be called, with any
  arguments; the integrator may change its own member. (\<open>solve\<close> calls \<open>initialize\<close>
  itself.)\<close>

inductive reachable :: "'o Collaborators \<Rightarrow> 'o World \<Rightarrow> 'o World \<Rightarrow> bool"
  for sys :: "'o Collaborators" and w0 :: "'o World" where
  start: "reachable sys w0 w0"
| state_changed: "reachable sys w0 (I, state) \<Longrightarrow> reachable sys w0 (I, state')"
| function_called: "reachable sys w0 w \<Longrightarrow> reachable sys w0 (snd (Impl_function sys t u res w))"
| jacobian_called: "reachable sys w0 w \<Longrightarrow> reachable sys w0 (snd (jacobian sys t u resm w))"
| step_called: "reachable sys w0 w \<Longrightarrow> reachable sys w0 (snd (step_tfinal sys t tfinal w))"
| partition_set: "reachable sys w0 (I, state) \<Longrightarrow> setPartition sys part I = Inr J \<Longrightarrow>
    reachable sys w0 (J, state)"
| options_set: "reachable sys w0 (I, state) \<Longrightarrow> reachable sys w0 (I\<lparr>options := opts\<rparr>, state)"
| integrator_changed: "reachable sys w0 (I, state) \<Longrightarrow> reachable sys w0 (I\<lparr>ode := x\<rparr>, state)"

text \<open>The two-species system with activities and rates that depend on temperature and
  pressure: the activities are \<open>P * n\<close>, the rate is \<open>T * (n\<^sub>1 - n\<^sub>0)\<close>. A chemical state
  at 400 K and 1 Pa, and the members after \<open>initialize\<close> at 300 K and 100000 Pa
  followed by a call of \<open>function\<close> at \<open>u = [1, 3]\<close>.\<close>

definition demo_sys_TP :: "unit Collaborators" where
  "demo_sys_TP = demo_sys\<lparr>
     activities := (\<lambda>Tv Pv n. \<lparr>val = map (dmul Pv) n,
        ddn = \<lparr>nrows = 2, ncols = 2, coeffs = [[Pv, Fin 0], [Fin 0, Pv]]\<rparr>\<rparr>),
     rates := (\<lambda>Tv Pv n av. \<lparr>val = [dmul Tv (dadd (n ! 1) (dneg (n ! 0)))],
        ddn = \<lparr>nrows = 1, ncols = 2, coeffs = [[dneg Tv, Tv]]\<rparr>\<rparr>)\<rparr>"

definition demo_state_hot :: "Vector \<Rightarrow> ChemicalState" where
  "demo_state_hot n = \<lparr>temperature = Fin 400, pressure = Fin 1, speciesAmounts = n\<rparr>"

definition demo_Impl_TP_called :: "unit Impl" where
  "demo_Impl_TP_called = demo_Impl_initialized\<lparr>be := [Fin 1], nk := [Fin 3],
       a := \<lparr>val = [Fin 100000, Fin 300000],
              ddn = \<lparr>nrows = 2, ncols = 2, coeffs = [[Fin 100000, Fin 0], [Fin 0, Fin 100000]]\<rparr>\<rparr>,
       r := \<lparr>val = [Fin 600],
              ddn = \<lparr>nrows = 1, ncols = 2, coeffs = [[Fin (- 300), Fin 300]]\<rparr>\<rparr>\<rparr>"

text \<open>The members of the two-species system after \<open>initialize\<close> on the amounts
  \<open>[x, y]\<close>, without and with output.\<close>

definition demo_Impl_at :: "double \<Rightarrow> double \<Rightarrow> unit Impl" where
  "demo_Impl_at x y = demo_Impl\<lparr>T := Fin 300, P := Fin 100000, ne := [x], nk := [y], benk := [x, y]\<rparr>"

definition demo_Impl_output :: "unit Impl" where
  "demo_Impl_output = demo_Impl\<lparr>options := \<lparr>output_active = True, output_format = []\<rparr>\<rparr>"

definition demo_Impl_output_at :: "double \<Rightarrow> double \<Rightarrow> unit Impl" where
  "demo_Impl_output_at x y =
     demo_Impl_output\<lparr>T := Fin 300, P := Fin 100000, ne := [x], nk := [y], benk := [x, y]\<rparr>"

section \<open>Auxiliary facts\<close>

subsection \<open>Matrices and vectors\<close>

lemma map_nth_upt: "length xs = m \<Longrightarrow> map (\<lambda>i. f (xs ! i)) [0..<m] = map f xs"
  by (auto simp add: list_eq_iff_nth_eq)

lemma length_coeffs_mat_mul [simp]: "length (coeffs (mat_mul X Y)) = nrows X"
  by (simp add: mat_mul_def)

lemma length_coeffs_tr [simp]: "length (coeffs (tr M)) = ncols M"
  by (simp add: tr_def)

lemma dims_simps [simp]:
  "nrows (mat_mul X Y) = nrows X" "ncols (mat_mul X Y) = ncols Y"
  "nrows (tr M) = ncols M" "ncols (tr M) = nrows M"
  "nrows (cols M idx) = nrows M" "ncols (cols M idx) = length idx"
  by (simp_all add: mat_mul_def tr_def cols_def)

lemma nrows_resize [simp]: "nrows (resize m n M) = m" "ncols (resize m n M) = n"
  by (simp_all add: resize_def)

lemma length_mat_vec [simp]: "length (mat_vec X v) = nrows X"
  by (simp add: mat_vec_def)

lemma mat_vec_rows: "length (coeffs X) = nrows X \<Longrightarrow> mat_vec X v = map (\<lambda>row. dot row v) (coeffs X)"
  unfolding mat_vec_def by (rule map_nth_upt) simp

lemma mat_vec_blocks:
  assumes "nrows M = nrows X + nrows Y" and "coeffs M = coeffs X @ coeffs Y"
    and "length (coeffs X) = nrows X" and "length (coeffs Y) = nrows Y"
  shows "mat_vec M v = mat_vec X v @ mat_vec Y v"
proof -
  have "length (coeffs M) = nrows M" using assms by simp
  then show ?thesis using assms by (simp add: mat_vec_rows)
qed

lemma segment_assign_both:
  "length tp = e \<Longrightarrow> length bt = k \<Longrightarrow> length res = e + k \<Longrightarrow>
   segment_assign (segment_assign res 0 e tp) e k bt = tp @ bt"
  by (simp add: segment_assign_def)

subsection \<open>The members after \<open>setPartition\<close>\<close>

lemma setPartition_members:
  assumes "setPartition sys part I0 = Inr J"
  shows "nrows (We J) = Ee J \<and> ncols (We J) = ncols (Se J)
    \<and> nrows (Se J) = numReactions sys \<and> nrows (Sk J) = numReactions sys
    \<and> ncols (Sk J) = Nk J \<and> ncols (Se J) = length (ispecies_e J)
    \<and> Nk J = length (ispecies_k J)
    \<and> nrows (R J) = numReactions sys \<and> ncols (R J) = Ee J + Nk J
    \<and> nrows (A J) = Ee J + Nk J \<and> ncols (A J) = numReactions sys
    \<and> coeffs (A J) = coeffs (mat_mul (We J) (tr (Se J))) @ coeffs (tr (Sk J))"
  using assms
  by (simp add: setPartition_def Let_def split: if_splits)
     (erule conjE, drule sym[of _ J], simp add: topRows_assign_def bottomRows_assign_def)+

subsection \<open>The two loops of \<open>function\<close>\<close>

lemma length_fold_clamp [simp]: "length (fold (clamp_at u) [0..<n] res) = length res"
  by (induction n) (simp_all add: clamp_at_def[of u "n::nat" for n])

lemma fold_clamp_nth:
  "i < length res \<Longrightarrow> fold (clamp_at u) [0..<n] res ! i =
     (if i < n \<and> dless (dabs (u ! i)) lower_bound_threshold \<and> dless (res ! i) (Fin 0)
      then Fin 0 else res ! i)"
proof (induction n)
  case 0
  then show ?case by simp
next
  case (Suc n)
  then show ?case
    by (cases "i = n") (auto simp add: clamp_at_def[of u n] nth_list_update)
qed

lemma impose_lower_bound_fold: "impose_lower_bound u res = fold (clamp_at u) [0..<length u] res"
  by (simp add: impose_lower_bound_def clamp_at_def[abs_def])

lemma length_impose_lower_bound [simp]: "length (impose_lower_bound u res) = length res"
  by (simp add: impose_lower_bound_fold)

lemma impose_lower_bound_nth:
  "i < length res \<Longrightarrow> i < length u \<Longrightarrow> impose_lower_bound u res ! i =
     (if dless (dabs (u ! i)) lower_bound_threshold \<and> dless (res ! i) (Fin 0)
      then Fin 0 else res ! i)"
  by (simp add: impose_lower_bound_fold fold_clamp_nth)

lemma Impl_function_returns:
  assumes dims: "nrows (We I) = Ee I" "ncols (We I) = ncols (Se I)"
      "nrows (Se I) = length (val rv)" "nrows (Sk I) = length (val rv)" "ncols (Sk I) = Nk I"
    and Am: "nrows (A I) = Ee I + Nk I"
      "coeffs (A I) = coeffs (mat_mul (We I) (tr (Se I))) @ coeffs (tr (Sk I))"
    and u: "\<not> has_nonfinite u" "length u = Ee I + Nk I" and res: "length res = Ee I + Nk I"
    and eq: "equilibrium_solve sys (setSpeciesAmounts (segment u (Ee I) (Nk I)) (ispecies_k I) st)
               (segment u 0 (Ee I)) = (None, st')"
    and rv: "rv = rates sys (T I) (P I) (speciesAmounts st')
               (activities sys (T I) (P I) (speciesAmounts st'))"
  shows "Impl_function sys t u res (I, st) =
     ((Inr 0, impose_lower_bound u (mat_vec (A I) (val rv))),
      (I\<lparr>be := segment u 0 (Ee I), nk := segment u (Ee I) (Nk I),
         a := activities sys (T I) (P I) (speciesAmounts st'), r := rv\<rparr>, st'))"
proof -
  have blocks: "mat_vec (A I) (val rv) =
      mat_vec (mat_mul (We I) (tr (Se I))) (val rv) @ mat_vec (tr (Sk I)) (val rv)"
    by (rule mat_vec_blocks) (simp_all add: Am dims)
  have seg: "segment_assign (segment_assign res 0 (Ee I)
        (mat_vec (mat_mul (We I) (tr (Se I))) (val rv))) (Ee I) (Nk I)
        (mat_vec (tr (Sk I)) (val rv)) = mat_vec (A I) (val rv)"
    unfolding blocks by (rule segment_assign_both) (simp_all add: dims res)
  show ?thesis
    using u res dims eq seg
    by (simp add: Impl_function_def Let_def rv[symmetric])
qed

lemma has_nonfinite_iff: "has_nonfinite u \<longleftrightarrow> (\<exists>i<length u. \<not> isfinite (u ! i))"
  unfolding has_nonfinite_def list_ex_iff by (metis in_set_conv_nth)

lemmas demo_simps = demo_sys_def demo_partition_def demo_Impl0_def demo_Impl_def demo_state_def
  demo_activities_def demo_rates_def demo_equilibrium_solve_def demo_integrate_def demo_solve_def
  empty_Matrix_def empty_ChemicalVector_def

lemmas eigen_simps = indices_within_def cols_def tr_def coeff_def resize_def topRows_assign_def
  bottomRows_assign_def leftCols_assign_def rightCols_assign_def mat_mul_def mat_vec_def dot_def
  segment_def segment_assign_def rows_def vresize_def has_nonfinite_def setSpeciesAmounts_def
  impose_lower_bound_def lower_bound_threshold_def numeral_2_eq_2

lemma demo_setPartition: "setPartition demo_sys demo_partition demo_Impl0 = Inr demo_Impl"
  by (simp add: setPartition_def Let_def demo_simps eigen_simps)

section \<open>The right-hand side\<close>

text \<open>
  C1. After \<open>setPartition\<close>, on a finite vector \<open>u = [be; nk]\<close> of \<open>Ee + Nk\<close> entries for
  which the equilibrium solve succeeds, \<open>function\<close> returns 0 and the derivative it
  writes is the lower bound applied to \<open>A * r.val\<close>, where \<open>r\<close> is the rate vector at the
  resolved composition; \<open>A\<close> has \<open>Ee + Nk\<close> rows and \<open>numReactions\<close> columns, its first
  \<open>Ee\<close> rows are \<open>We * tr(Se)\<close> and its last \<open>Nk\<close> rows are \<open>tr(Sk)\<close>.
\<close>

theorem function_rhs_coefficient_matrix:
  assumes sp: "setPartition sys part I0 = Inr J" and same: "same_partition I J"
    and fin: "\<forall>x\<in>set u. isfinite x"
    and u: "length u = Ee I + Nk I" and res: "length res = Ee I + Nk I"
    and eq: "equilibrium_solve sys (setSpeciesAmounts (segment u (Ee I) (Nk I)) (ispecies_k I) st)
               (segment u 0 (Ee I)) = (None, st')"
    and rv: "rv = rates sys (T I) (P I) (speciesAmounts st')
               (activities sys (T I) (P I) (speciesAmounts st'))"
    and len: "length (val rv) = numReactions sys"
  shows "fst (Impl_function sys t u res (I, st)) =
           (Inr 0, impose_lower_bound u (mat_vec (A I) (val rv)))
       \<and> nrows (A I) = Ee I + Nk I \<and> ncols (A I) = numReactions sys
       \<and> take (Ee I) (coeffs (A I)) = coeffs (mat_mul (We I) (tr (Se I)))
       \<and> drop (Ee I) (coeffs (A I)) = coeffs (tr (Sk I))
       \<and> length (coeffs (tr (Sk I))) = Nk I"
proof -
  note m = setPartition_members[OF sp]
  from same have s: "Ee I = Ee J" "Nk I = Nk J" "We I = We J" "Se I = Se J" "Sk I = Sk J"
      "A I = A J"
    by (simp_all add: same_partition_def)
  have nf: "\<not> has_nonfinite u" using fin by (simp add: has_nonfinite_def list_ex_iff)
  have "Impl_function sys t u res (I, st) =
     ((Inr 0, impose_lower_bound u (mat_vec (A I) (val rv))),
      (I\<lparr>be := segment u 0 (Ee I), nk := segment u (Ee I) (Nk I),
         a := activities sys (T I) (P I) (speciesAmounts st'), r := rv\<rparr>, st'))"
    by (rule Impl_function_returns[OF _ _ _ _ _ _ _ nf u res eq rv]) (simp_all add: s m len)
  then show ?thesis by (simp add: s m)
qed

theorem function_rhs_coefficient_matrix_witness:
  "setPartition demo_sys demo_partition demo_Impl0 = Inr demo_Impl
   \<and> same_partition demo_Impl demo_Impl
   \<and> isfinite (Fin 1) \<and> isfinite (Fin 3)
   \<and> fst (Impl_function demo_sys (Fin 0) [Fin 1, Fin 3] [Fin 0, Fin 0]
        (demo_Impl, demo_state [Fin 2, Fin 2])) = (Inr 0, [Fin (- 2), Fin 2])
   \<and> A demo_Impl = \<lparr>nrows = 2, ncols = 1, coeffs = [[Fin (- 1)], [Fin 1]]\<rparr>"
proof -
  have h1: "setPartition demo_sys demo_partition demo_Impl0 = Inr demo_Impl"
    by (rule demo_setPartition)
  have h2: "same_partition demo_Impl demo_Impl" by (simp add: same_partition_def)
  have h3: "\<forall>x\<in>set [Fin 1, Fin 3]. isfinite x" by simp
  have h4: "length [Fin 1, Fin 3] = Ee demo_Impl + Nk demo_Impl" by (simp add: demo_simps)
  have h5: "length [Fin 0, Fin 0] = Ee demo_Impl + Nk demo_Impl" by (simp add: demo_simps)
  have h6: "equilibrium_solve demo_sys
      (setSpeciesAmounts (segment [Fin 1, Fin 3] (Ee demo_Impl) (Nk demo_Impl))
         (ispecies_k demo_Impl) (demo_state [Fin 2, Fin 2]))
      (segment [Fin 1, Fin 3] 0 (Ee demo_Impl)) = (None, demo_state [Fin 1, Fin 3])"
    by (simp add: demo_simps eigen_simps)
  have h7: "length (val (rates demo_sys (T demo_Impl) (P demo_Impl)
      (speciesAmounts (demo_state [Fin 1, Fin 3]))
      (activities demo_sys (T demo_Impl) (P demo_Impl)
         (speciesAmounts (demo_state [Fin 1, Fin 3]))))) = numReactions demo_sys"
    by (simp add: demo_simps)
  note c = function_rhs_coefficient_matrix[OF h1 h2 h3 h4 h5 h6 refl h7, of "Fin 0"]
  have v: "impose_lower_bound [Fin 1, Fin 3] (mat_vec (A demo_Impl)
      (val (rates demo_sys (T demo_Impl) (P demo_Impl)
      (speciesAmounts (demo_state [Fin 1, Fin 3]))
      (activities demo_sys (T demo_Impl) (P demo_Impl)
         (speciesAmounts (demo_state [Fin 1, Fin 3])))))) = [Fin (- 2), Fin 2]"
    by (simp add: demo_simps eigen_simps)
  have c1: "fst (Impl_function demo_sys (Fin 0) [Fin 1, Fin 3] [Fin 0, Fin 0]
        (demo_Impl, demo_state [Fin 2, Fin 2])) = (Inr 0, [Fin (- 2), Fin 2])"
    using c v by simp
  have c2: "A demo_Impl = \<lparr>nrows = 2, ncols = 1, coeffs = [[Fin (- 1)], [Fin 1]]\<rparr>"
    by (simp add: demo_simps)
  show ?thesis
    using h1 h2 c1 c2 by simp
qed

text \<open>
  C2. When some entry of \<open>u\<close> is not finite, \<open>function\<close> returns the code 1 without
  raising an error, leaves \<open>res\<close> as it was and does not change the chemical state.
\<close>

theorem function_nonfinite_guard:
  assumes "\<exists>i<length u. \<not> isfinite (u ! i)" and "Ee I + Nk I \<le> length u"
  shows "fst (Impl_function sys t u res (I, st)) = (Inr 1, res)
       \<and> snd (snd (Impl_function sys t u res (I, st))) = st"
  using assms by (simp add: Impl_function_def Let_def has_nonfinite_iff)

theorem function_nonfinite_guard_witness:
  "(\<exists>i<length [Fin 1, NaN]. \<not> isfinite ([Fin 1, NaN] ! i))
   \<and> Ee demo_Impl + Nk demo_Impl \<le> length [Fin 1, NaN]
   \<and> fst (Impl_function demo_sys (Fin 0) [Fin 1, NaN] [Fin 0, Fin 0]
            (demo_Impl, demo_state [Fin 1, Fin 0])) = (Inr 1, [Fin 0, Fin 0])
   \<and> snd (snd (Impl_function demo_sys (Fin 0) [Fin 1, NaN] [Fin 0, Fin 0]
            (demo_Impl, demo_state [Fin 1, Fin 0]))) = demo_state [Fin 1, Fin 0]"
proof -
  have h1: "\<exists>i<length [Fin 1, NaN]. \<not> isfinite ([Fin 1, NaN] ! i)"
    by (rule exI[of _ 1]) simp
  have h2: "Ee demo_Impl + Nk demo_Impl \<le> length [Fin 1, NaN]"
    by (simp add: demo_simps)
  show ?thesis
    using h1 h2 function_nonfinite_guard[OF h1 h2] by blast
qed

text \<open>
  C4. On a finite \<open>u\<close>, at every index \<open>i\<close> where \<open>|u\<^sub>i|\<close> is below \<open>1e-50\<close> and the
  component \<open>i\<close> of \<open>A * r.val\<close> is negative, \<open>function\<close> returns exactly 0 for that
  component.
\<close>

theorem function_lower_bound:
  assumes sp: "setPartition sys part I0 = Inr J" and same: "same_partition I J"
    and fin: "\<forall>x\<in>set u. isfinite x"
    and u: "length u = Ee I + Nk I" and res: "length res = Ee I + Nk I"
    and eq: "equilibrium_solve sys (setSpeciesAmounts (segment u (Ee I) (Nk I)) (ispecies_k I) st)
               (segment u 0 (Ee I)) = (None, st')"
    and rv: "rv = rates sys (T I) (P I) (speciesAmounts st')
               (activities sys (T I) (P I) (speciesAmounts st'))"
    and len: "length (val rv) = numReactions sys"
    and i: "i < length u"
    and small: "dless (dabs (u ! i)) (Fin (1 / 10 ^ 50))"
    and neg: "dless (mat_vec (A I) (val rv) ! i) (Fin 0)"
  shows "fst (fst (Impl_function sys t u res (I, st))) = Inr 0
       \<and> snd (fst (Impl_function sys t u res (I, st))) ! i = Fin 0"
proof -
  note m = setPartition_members[OF sp]
  from same have s: "Ee I = Ee J" "Nk I = Nk J" "We I = We J" "Se I = Se J" "Sk I = Sk J"
      "A I = A J"
    by (simp_all add: same_partition_def)
  have nf: "\<not> has_nonfinite u" using fin by (simp add: has_nonfinite_def list_ex_iff)
  have "Impl_function sys t u res (I, st) =
     ((Inr 0, impose_lower_bound u (mat_vec (A I) (val rv))),
      (I\<lparr>be := segment u 0 (Ee I), nk := segment u (Ee I) (Nk I),
         a := activities sys (T I) (P I) (speciesAmounts st'), r := rv\<rparr>, st'))"
    by (rule Impl_function_returns[OF _ _ _ _ _ _ _ nf u res eq rv]) (simp_all add: s m len)
  moreover have "impose_lower_bound u (mat_vec (A I) (val rv)) ! i = Fin 0"
    using i small neg u m s by (simp add: impose_lower_bound_nth lower_bound_threshold_def)
  ultimately show ?thesis by simp
qed

theorem function_lower_bound_witness:
  "setPartition demo_sys demo_partition demo_Impl0 = Inr demo_Impl
   \<and> isfinite (Fin 1) \<and> isfinite (Fin 0)
   \<and> dless (dabs ([Fin 1, Fin 0] ! 1)) (Fin (1 / 10 ^ 50))
   \<and> mat_vec (A demo_Impl) (val (demo_rates (Fin 0) (Fin 0) [Fin 1, Fin 0]
        (demo_activities (Fin 0) (Fin 0) [Fin 1, Fin 0]))) = [Fin 1, Fin (- 1)]
   \<and> snd (fst (Impl_function demo_sys (Fin 0) [Fin 1, Fin 0] [Fin 0, Fin 0]
        (demo_Impl, demo_state [Fin 1, Fin 0]))) ! 1 = Fin 0"
proof -
  have h1: "setPartition demo_sys demo_partition demo_Impl0 = Inr demo_Impl"
    by (rule demo_setPartition)
  have h2: "same_partition demo_Impl demo_Impl" by (simp add: same_partition_def)
  have h3: "\<forall>x\<in>set [Fin 1, Fin 0]. isfinite x" by simp
  have h4: "length [Fin 1, Fin 0] = Ee demo_Impl + Nk demo_Impl" by (simp add: demo_simps)
  have h5: "length [Fin 0, Fin 0] = Ee demo_Impl + Nk demo_Impl" by (simp add: demo_simps)
  have h6: "equilibrium_solve demo_sys
      (setSpeciesAmounts (segment [Fin 1, Fin 0] (Ee demo_Impl) (Nk demo_Impl))
         (ispecies_k demo_Impl) (demo_state [Fin 1, Fin 0]))
      (segment [Fin 1, Fin 0] 0 (Ee demo_Impl)) = (None, demo_state [Fin 1, Fin 0])"
    by (simp add: demo_simps eigen_simps)
  have h7: "demo_rates (Fin 0) (Fin 0) [Fin 1, Fin 0]
        (demo_activities (Fin 0) (Fin 0) [Fin 1, Fin 0]) =
      rates demo_sys (T demo_Impl) (P demo_Impl) (speciesAmounts (demo_state [Fin 1, Fin 0]))
      (activities demo_sys (T demo_Impl) (P demo_Impl)
         (speciesAmounts (demo_state [Fin 1, Fin 0])))"
    by (simp add: demo_simps)
  have h8: "length (val (demo_rates (Fin 0) (Fin 0) [Fin 1, Fin 0]
        (demo_activities (Fin 0) (Fin 0) [Fin 1, Fin 0]))) = numReactions demo_sys"
    by (simp add: demo_simps)
  have h9: "(1::nat) < length [Fin 1, Fin 0]" by simp
  have h10: "dless (dabs ([Fin 1, Fin 0] ! 1)) (Fin (1 / 10 ^ 50))" by simp
  have v: "mat_vec (A demo_Impl) (val (demo_rates (Fin 0) (Fin 0) [Fin 1, Fin 0]
        (demo_activities (Fin 0) (Fin 0) [Fin 1, Fin 0]))) = [Fin 1, Fin (- 1)]"
    by (simp add: demo_simps eigen_simps)
  have h11: "dless (mat_vec (A demo_Impl) (val (demo_rates (Fin 0) (Fin 0) [Fin 1, Fin 0]
        (demo_activities (Fin 0) (Fin 0) [Fin 1, Fin 0]))) ! 1) (Fin 0)"
    unfolding v by simp
  note c = function_lower_bound[OF h1 h2 h3 h4 h5 h6 h7 h8 h9 h10 h11, of "Fin 0"]
  show ?thesis
    using h1 h10 v c by simp
qed

text \<open>
  C7, as the spec states it, fails: the last loop of \<open>function\<close> runs over every
  index of \<open>u\<close>, those of the element abundances included. In the two-species system,
  at \<open>u = [0, 1]\<close> the derivative of the element abundance (index 0, below \<open>Ee\<close>) is
  computed as -1 and returned as 0.
\<close>

theorem lower_bound_on_element_abundance:
  "0 < Ee demo_Impl
   \<and> dless (dabs ([Fin 0, Fin 1] ! 0)) lower_bound_threshold
   \<and> mat_vec (A demo_Impl) (val (rates demo_sys (T demo_Impl) (P demo_Impl) [Fin 0, Fin 1]
        (activities demo_sys (T demo_Impl) (P demo_Impl) [Fin 0, Fin 1]))) = [Fin (- 1), Fin 1]
   \<and> Impl_function demo_sys (Fin 0) [Fin 0, Fin 1] [Fin 0, Fin 0]
        (demo_Impl, demo_state [Fin 0, Fin 1]) =
      ((Inr 0, [Fin 0, Fin 1]),
       (demo_Impl\<lparr>be := [Fin 0], nk := [Fin 1],
          a := demo_activities (Fin 0) (Fin 0) [Fin 0, Fin 1],
          r := demo_rates (Fin 0) (Fin 0) [Fin 0, Fin 1]
                 (demo_activities (Fin 0) (Fin 0) [Fin 0, Fin 1])\<rparr>,
        demo_state [Fin 0, Fin 1]))"
  by (simp add: Impl_function_def Let_def demo_simps eigen_simps)

text \<open>
  C7, amended. The lower bound changes only negative components of the derivative, and
  it is applied at every index of \<open>u\<close>, the element abundances \<open>be\<close> included: on a
  finite \<open>u\<close>, at every index \<open>i\<close>, the component returned is 0 when
  \<open>|u\<^sub>i| < 1e-50\<close> and the computed component is negative, and is the computed
  component \<open>(A * r.val)\<^sub>i\<close> otherwise.
\<close>

theorem function_lower_bound_every_index:
  assumes sp: "setPartition sys part I0 = Inr J" and same: "same_partition I J"
    and fin: "\<forall>x\<in>set u. isfinite x"
    and u: "length u = Ee I + Nk I" and res: "length res = Ee I + Nk I"
    and eq: "equilibrium_solve sys (setSpeciesAmounts (segment u (Ee I) (Nk I)) (ispecies_k I) st)
               (segment u 0 (Ee I)) = (None, st')"
    and rv: "rv = rates sys (T I) (P I) (speciesAmounts st')
               (activities sys (T I) (P I) (speciesAmounts st'))"
    and len: "length (val rv) = numReactions sys"
    and i: "i < length u"
  shows "snd (fst (Impl_function sys t u res (I, st))) ! i =
           (if dless (dabs (u ! i)) (Fin (1 / 10 ^ 50)) \<and> dless (mat_vec (A I) (val rv) ! i) (Fin 0)
            then Fin 0 else mat_vec (A I) (val rv) ! i)"
proof -
  note m = setPartition_members[OF sp]
  from same have s: "Ee I = Ee J" "Nk I = Nk J" "We I = We J" "Se I = Se J" "Sk I = Sk J"
      "A I = A J"
    by (simp_all add: same_partition_def)
  have nf: "\<not> has_nonfinite u" using fin by (simp add: has_nonfinite_def list_ex_iff)
  have "Impl_function sys t u res (I, st) =
     ((Inr 0, impose_lower_bound u (mat_vec (A I) (val rv))),
      (I\<lparr>be := segment u 0 (Ee I), nk := segment u (Ee I) (Nk I),
         a := activities sys (T I) (P I) (speciesAmounts st'), r := rv\<rparr>, st'))"
    by (rule Impl_function_returns[OF _ _ _ _ _ _ _ nf u res eq rv]) (simp_all add: s m len)
  moreover have "impose_lower_bound u (mat_vec (A I) (val rv)) ! i =
      (if dless (dabs (u ! i)) (Fin (1 / 10 ^ 50)) \<and> dless (mat_vec (A I) (val rv) ! i) (Fin 0)
            then Fin 0 else mat_vec (A I) (val rv) ! i)"
    using i u m s by (simp add: impose_lower_bound_nth lower_bound_threshold_def)
  ultimately show ?thesis by simp
qed

theorem function_lower_bound_every_index_witness:
  "setPartition demo_sys demo_partition demo_Impl0 = Inr demo_Impl
   \<and> (0::nat) < Ee demo_Impl
   \<and> mat_vec (A demo_Impl) (val (demo_rates (Fin 0) (Fin 0) [Fin 0, Fin 1]
        (demo_activities (Fin 0) (Fin 0) [Fin 0, Fin 1]))) = [Fin (- 1), Fin 1]
   \<and> snd (fst (Impl_function demo_sys (Fin 0) [Fin 0, Fin 1] [Fin 0, Fin 0]
        (demo_Impl, demo_state [Fin 0, Fin 1]))) ! 0 = Fin 0
   \<and> snd (fst (Impl_function demo_sys (Fin 0) [Fin 0, Fin 1] [Fin 0, Fin 0]
        (demo_Impl, demo_state [Fin 0, Fin 1]))) ! 1 = Fin 1"
proof -
  have h1: "setPartition demo_sys demo_partition demo_Impl0 = Inr demo_Impl"
    by (rule demo_setPartition)
  have h2: "same_partition demo_Impl demo_Impl" by (simp add: same_partition_def)
  have h3: "\<forall>x\<in>set [Fin 0, Fin 1]. isfinite x" by simp
  have h4: "length [Fin 0, Fin 1] = Ee demo_Impl + Nk demo_Impl" by (simp add: demo_simps)
  have h5: "length [Fin 0, Fin 0] = Ee demo_Impl + Nk demo_Impl" by (simp add: demo_simps)
  have h6: "equilibrium_solve demo_sys
      (setSpeciesAmounts (segment [Fin 0, Fin 1] (Ee demo_Impl) (Nk demo_Impl))
         (ispecies_k demo_Impl) (demo_state [Fin 0, Fin 1]))
      (segment [Fin 0, Fin 1] 0 (Ee demo_Impl)) = (None, demo_state [Fin 0, Fin 1])"
    by (simp add: demo_simps eigen_simps)
  have h7: "demo_rates (Fin 0) (Fin 0) [Fin 0, Fin 1]
        (demo_activities (Fin 0) (Fin 0) [Fin 0, Fin 1]) =
      rates demo_sys (T demo_Impl) (P demo_Impl) (speciesAmounts (demo_state [Fin 0, Fin 1]))
      (activities demo_sys (T demo_Impl) (P demo_Impl)
         (speciesAmounts (demo_state [Fin 0, Fin 1])))"
    by (simp add: demo_simps)
  have h8: "length (val (demo_rates (Fin 0) (Fin 0) [Fin 0, Fin 1]
        (demo_activities (Fin 0) (Fin 0) [Fin 0, Fin 1]))) = numReactions demo_sys"
    by (simp add: demo_simps)
  have h9: "(0::nat) < length [Fin 0, Fin 1]" "(1::nat) < length [Fin 0, Fin 1]" by simp_all
  have v: "mat_vec (A demo_Impl) (val (demo_rates (Fin 0) (Fin 0) [Fin 0, Fin 1]
        (demo_activities (Fin 0) (Fin 0) [Fin 0, Fin 1]))) = [Fin (- 1), Fin 1]"
    by (simp add: demo_simps eigen_simps)
  note c0 = function_lower_bound_every_index[OF h1 h2 h3 h4 h5 h6 h7 h8 h9(1), of "Fin 0",
      unfolded v]
  note c1 = function_lower_bound_every_index[OF h1 h2 h3 h4 h5 h6 h7 h8 h9(2), of "Fin 0",
      unfolded v]
  have e: "(0::nat) < Ee demo_Impl" by (simp add: demo_simps)
  show ?thesis
    using h1 e v c0 c1 by simp
qed

subsection \<open>Zero rates\<close>







section \<open>\<open>step\<close> without a final time\<close>

lemma step_default_tfinal_eq: "step_default_tfinal = Fin 4294967295"
  by (simp add: step_default_tfinal_def unsigned_minus_1_eq_mask mask_eq_exp_minus_1)

text \<open>
  C8. \<open>step(state, t)\<close> is \<open>step(state, t, tfinal)\<close> with \<open>tfinal = 4294967295\<close>, a finite
  bound on the time, below for instance \<open>t = 5000000000\<close>.
\<close>

theorem step_without_tfinal_bound:
  "step sys t w = step_tfinal sys t (Fin 4294967295) w
   \<and> isfinite step_default_tfinal
   \<and> dless step_default_tfinal (Fin 5000000000)"
  by (simp add: step_def step_default_tfinal_eq)

section \<open>The Jacobian\<close>

lemma length_row_mat_mul: "i < nrows X \<Longrightarrow> length (coeffs (mat_mul X Y) ! i) = ncols Y"
  by (simp add: mat_mul_def)

lemma cols_assign_hcat:
  assumes "nrows M = nrows X" and "ncols M = ncols X + k" and "ncols Y = k"
    and "\<And>i. i < nrows X \<Longrightarrow> length (coeffs X ! i) = ncols X"
  shows "rightCols_assign (leftCols_assign M (ncols X) X) k Y = hcat X Y"
  using assms
  by (simp add: rightCols_assign_def leftCols_assign_def hcat_def)

lemma jacobian_returns:
  assumes u: "Ee I + Nk I \<le> length u"
    and eq: "equilibrium_solve sys (setSpeciesAmounts (segment u (Ee I) (Nk I)) (ispecies_k I) st)
               (segment u 0 (Ee I)) = (None, st')"
    and idx: "indices_within (ispecies_e I) (ncols (ddn (r I)))"
      "indices_within (ispecies_k I) (ncols (ddn (r I)))"
    and dims: "length (ispecies_e I) = nrows (equilibrium_dndb sys st')"
      "nrows (ddn (r I)) = nrows (R I)" "ncols (equilibrium_dndb sys st') = Ee I"
      "length (ispecies_k I) = Nk I" "ncols (R I) = Ee I + Nk I" "ncols (A I) = nrows (R I)"
  shows "jacobian sys t u res (I, st) =
     ((Inr 0, mat_mul (A I) (hcat (mat_mul (cols (ddn (r I)) (ispecies_e I))
                 (equilibrium_dndb sys st')) (cols (ddn (r I)) (ispecies_k I)))),
      (I\<lparr>be := segment u 0 (Ee I), nk := segment u (Ee I) (Nk I),
         Be := equilibrium_dndb sys st',
         Re' := cols (ddn (r I)) (ispecies_e I), Rk := cols (ddn (r I)) (ispecies_k I),
         R := hcat (mat_mul (cols (ddn (r I)) (ispecies_e I)) (equilibrium_dndb sys st'))
                (cols (ddn (r I)) (ispecies_k I))\<rparr>, st'))"
proof -
  have h: "rightCols_assign (leftCols_assign (R I)
         (ncols (mat_mul (cols (ddn (r I)) (ispecies_e I)) (equilibrium_dndb sys st')))
         (mat_mul (cols (ddn (r I)) (ispecies_e I)) (equilibrium_dndb sys st')))
       (Nk I) (cols (ddn (r I)) (ispecies_k I)) =
     hcat (mat_mul (cols (ddn (r I)) (ispecies_e I)) (equilibrium_dndb sys st'))
       (cols (ddn (r I)) (ispecies_k I))"
    by (rule cols_assign_hcat) (simp_all add: dims length_row_mat_mul)
  show ?thesis
    using u eq idx dims h
    by (simp add: jacobian_def Let_def)
qed

lemmas fun_simps = Impl_function_def jacobian_def update_composition_def initialize_def
  step_tfinal_def Let_def demo_Impl_called_def demo_Impl_initialized_def hcat_def

text \<open>
  C5. After \<open>setPartition\<close>, on a vector \<open>u\<close> of \<open>Ee + Nk\<close> entries for which the
  equilibrium solve succeeds, \<open>jacobian\<close> returns 0 and \<open>A * R\<close> with
  \<open>R = [Re * Be | Rk]\<close> of width \<open>Ee + Nk\<close>, where \<open>Be\<close> is \<open>equilibrium.dndb\<close> at the
  resolved state and \<open>Re\<close>, \<open>Rk\<close> are the columns of \<open>r.ddn\<close> at the equilibrium and
  the kinetic species.
\<close>

theorem jacobian_coefficient_matrix:
  assumes sp: "setPartition sys part I0 = Inr J" and same: "same_partition I J"
    and u: "length u = Ee I + Nk I"
    and eq: "equilibrium_solve sys (setSpeciesAmounts (segment u (Ee I) (Nk I)) (ispecies_k I) st)
               (segment u 0 (Ee I)) = (None, st')"
    and Bm: "Bm = equilibrium_dndb sys st'"
    and Bdims: "nrows Bm = length (ispecies_e I)" "ncols Bm = Ee I"
    and rdims: "nrows (ddn (r I)) = numReactions sys"
      "indices_within (ispecies_e I) (ncols (ddn (r I)))"
      "indices_within (ispecies_k I) (ncols (ddn (r I)))"
  shows "fst (jacobian sys t u res (I, st)) =
           (Inr 0, mat_mul (A I)
              (hcat (mat_mul (cols (ddn (r I)) (ispecies_e I)) Bm) (cols (ddn (r I)) (ispecies_k I))))
       \<and> ncols (hcat (mat_mul (cols (ddn (r I)) (ispecies_e I)) Bm)
              (cols (ddn (r I)) (ispecies_k I))) = Ee I + Nk I"
proof -
  note m = setPartition_members[OF sp]
  from same have s: "Ee I = Ee J" "Nk I = Nk J" "A I = A J" "ispecies_k I = ispecies_k J"
      "nrows (R I) = nrows (R J)" "ncols (R I) = ncols (R J)"
    by (simp_all add: same_partition_def)
  have "jacobian sys t u res (I, st) =
     ((Inr 0, mat_mul (A I) (hcat (mat_mul (cols (ddn (r I)) (ispecies_e I))
                 (equilibrium_dndb sys st')) (cols (ddn (r I)) (ispecies_k I)))),
      (I\<lparr>be := segment u 0 (Ee I), nk := segment u (Ee I) (Nk I),
         Be := equilibrium_dndb sys st',
         Re' := cols (ddn (r I)) (ispecies_e I), Rk := cols (ddn (r I)) (ispecies_k I),
         R := hcat (mat_mul (cols (ddn (r I)) (ispecies_e I)) (equilibrium_dndb sys st'))
                (cols (ddn (r I)) (ispecies_k I))\<rparr>, st'))"
    using u Bdims rdims
    by (intro jacobian_returns eq) (simp_all add: Bm s m)
  then show ?thesis using Bdims m s by (simp add: Bm hcat_def)
qed

theorem jacobian_coefficient_matrix_witness:
  "setPartition demo_sys demo_partition demo_Impl0 = Inr demo_Impl
   \<and> same_partition demo_Impl_called demo_Impl
   \<and> fst (jacobian demo_sys (Fin 0) [Fin 1, Fin 3] empty_Matrix
        (demo_Impl_called, demo_state [Fin 1, Fin 0])) =
      (Inr 0, \<lparr>nrows = 2, ncols = 2, coeffs = [[Fin 1, Fin (- 1)], [Fin (- 1), Fin 1]]\<rparr>)"
proof -
  have h1: "setPartition demo_sys demo_partition demo_Impl0 = Inr demo_Impl"
    by (rule demo_setPartition)
  have h2: "same_partition demo_Impl_called demo_Impl"
    by (simp add: same_partition_def demo_Impl_called_def)
  have h3: "length [Fin 1, Fin 3] = Ee demo_Impl_called + Nk demo_Impl_called"
    by (simp add: demo_Impl_called_def demo_simps)
  have h4: "equilibrium_solve demo_sys
      (setSpeciesAmounts (segment [Fin 1, Fin 3] (Ee demo_Impl_called) (Nk demo_Impl_called))
         (ispecies_k demo_Impl_called) (demo_state [Fin 1, Fin 0]))
      (segment [Fin 1, Fin 3] 0 (Ee demo_Impl_called)) = (None, demo_state [Fin 1, Fin 3])"
    by (simp add: demo_Impl_called_def demo_simps eigen_simps)
  have h5: "\<lparr>nrows = 1, ncols = 1, coeffs = [[Fin 1]]\<rparr> =
      equilibrium_dndb demo_sys (demo_state [Fin 1, Fin 3])"
    by (simp add: demo_simps)
  have h6: "nrows \<lparr>nrows = 1, ncols = 1, coeffs = [[Fin 1]]\<rparr> = length (ispecies_e demo_Impl_called)"
    "ncols \<lparr>nrows = 1, ncols = 1, coeffs = [[Fin 1]]\<rparr> = Ee demo_Impl_called"
    by (simp_all add: demo_Impl_called_def demo_simps)
  have h7: "nrows (ddn (r demo_Impl_called)) = numReactions demo_sys"
    "indices_within (ispecies_e demo_Impl_called) (ncols (ddn (r demo_Impl_called)))"
    "indices_within (ispecies_k demo_Impl_called) (ncols (ddn (r demo_Impl_called)))"
    by (simp_all add: demo_Impl_called_def demo_simps eigen_simps)
  note c = jacobian_coefficient_matrix[OF h1 h2 h3 h4 h5 h6 h7, of "Fin 0" empty_Matrix]
  have v: "mat_mul (A demo_Impl_called)
      (hcat (mat_mul (cols (ddn (r demo_Impl_called)) (ispecies_e demo_Impl_called))
               \<lparr>nrows = 1, ncols = 1, coeffs = [[Fin 1]]\<rparr>)
         (cols (ddn (r demo_Impl_called)) (ispecies_k demo_Impl_called))) =
      \<lparr>nrows = 2, ncols = 2, coeffs = [[Fin 1, Fin (- 1)], [Fin (- 1), Fin 1]]\<rparr>"
    by (simp add: demo_Impl_called_def hcat_def demo_simps eigen_simps)
  show ?thesis
    using h1 h2 c[unfolded v] by simp
qed

text \<open>
  C6, as the spec states it, fails: on a vector with an entry that is not a number,
  \<open>jacobian\<close> returns 0 and has written that entry into the chemical state.
\<close>

theorem jacobian_nonfinite_counterexample:
  "has_nonfinite [Fin 1, NaN]
   \<and> fst (fst (jacobian demo_sys (Fin 0) [Fin 1, NaN] empty_Matrix
        (demo_Impl_called, demo_state [Fin 1, Fin 0]))) = Inr 0
   \<and> speciesAmounts (snd (snd (jacobian demo_sys (Fin 0) [Fin 1, NaN] empty_Matrix
        (demo_Impl_called, demo_state [Fin 1, Fin 0])))) = [Fin 1, NaN]
   \<and> speciesAmounts (demo_state [Fin 1, Fin 0]) = [Fin 1, Fin 0]"
  by (simp add: fun_simps demo_simps eigen_simps)

text \<open>
  C6, amended. \<open>jacobian\<close> has no finiteness guard. On every vector \<open>u\<close> of at least
  \<open>Ee + Nk\<close> entries, finite or not, it splits \<open>u\<close> into \<open>be\<close> and \<open>nk\<close>, writes \<open>nk\<close>
  into the kinetic species and solves the equilibrium for \<open>be\<close>: the state it leaves is
  the one the equilibrium solve leaves. It never returns the code 1.
\<close>

theorem jacobian_no_guard:
  assumes "Ee I + Nk I \<le> length u"
  shows "snd (snd (jacobian sys t u res (I, st))) =
           snd (equilibrium_solve sys
                  (setSpeciesAmounts (segment u (Ee I) (Nk I)) (ispecies_k I) st)
                  (segment u 0 (Ee I)))
       \<and> be (fst (snd (jacobian sys t u res (I, st)))) = segment u 0 (Ee I)
       \<and> nk (fst (snd (jacobian sys t u res (I, st)))) = segment u (Ee I) (Nk I)
       \<and> fst (fst (jacobian sys t u res (I, st))) \<noteq> Inr 1"
  using assms
  by (simp add: jacobian_def Let_def split: prod.splits option.splits)

theorem jacobian_no_guard_witness:
  "Ee demo_Impl_called + Nk demo_Impl_called \<le> length [Fin 1, NaN]
   \<and> has_nonfinite [Fin 1, NaN]
   \<and> snd (snd (jacobian demo_sys (Fin 0) [Fin 1, NaN] empty_Matrix
        (demo_Impl_called, demo_state [Fin 1, Fin 0]))) = demo_state [Fin 1, NaN]
   \<and> fst (fst (jacobian demo_sys (Fin 0) [Fin 1, NaN] empty_Matrix
        (demo_Impl_called, demo_state [Fin 1, Fin 0]))) \<noteq> Inr 1"
proof -
  have h1: "Ee demo_Impl_called + Nk demo_Impl_called \<le> length [Fin 1, NaN]"
    by (simp add: demo_Impl_called_def demo_simps)
  have h2: "has_nonfinite [Fin 1, NaN]" by (simp add: has_nonfinite_def)
  have v: "snd (equilibrium_solve demo_sys
      (setSpeciesAmounts (segment [Fin 1, NaN] (Ee demo_Impl_called) (Nk demo_Impl_called))
         (ispecies_k demo_Impl_called) (demo_state [Fin 1, Fin 0]))
      (segment [Fin 1, NaN] 0 (Ee demo_Impl_called))) = demo_state [Fin 1, NaN]"
    by (simp add: demo_Impl_called_def demo_simps eigen_simps)
  note c = jacobian_no_guard[OF h1, of demo_sys "Fin 0" empty_Matrix "demo_state [Fin 1, Fin 0]",
      unfolded v]
  show ?thesis using h1 h2 c by simp
qed

section \<open>\<open>step\<close> and \<open>solve\<close>\<close>

lemma step_tfinal_sizes_disagree:
  "\<not> step_sizes_agree I st \<Longrightarrow>
   step_tfinal sys t tfinal (I, st) = ((Some DimensionMismatch, t), (I, st))
   \<or> step_tfinal sys t tfinal (I, st) = ((Some DimensionMismatch, t),
        (I\<lparr>ne := rows (speciesAmounts st) (ispecies_e I),
           nk := rows (speciesAmounts st) (ispecies_k I)\<rparr>, st))"
  by (auto simp add: step_tfinal_def step_sizes_agree_def Let_def rows_def)

lemma step_tfinal_sizes_disagree_result:
  assumes "\<not> step_sizes_agree I st"
  shows "fst (step_tfinal sys t tfinal (I, st)) = (Some DimensionMismatch, t)
       \<and> snd (snd (step_tfinal sys t tfinal (I, st))) = st"
  using step_tfinal_sizes_disagree[OF assms, of sys t tfinal] by auto

lemma step_tfinal_integrates:
  assumes "step_sizes_agree I st"
    and "ode_integrate sys (Impl_function sys) (jacobian sys) t (benk (step_members I st)) tfinal
           (step_members I st, st) = ((e1, t1, u1), (I1, st1))"
  shows "step_tfinal sys t tfinal (I, st) =
     (case e1 of
        Some e \<Rightarrow> ((Some e, t1), (I1\<lparr>benk := u1\<rparr>, st1))
      | None \<Rightarrow> ((fst (update_composition sys (I1\<lparr>benk := u1\<rparr>, st1)), t1),
                 snd (update_composition sys (I1\<lparr>benk := u1\<rparr>, st1))))"
  using assms
  by (simp add: step_tfinal_def step_sizes_agree_def step_members_def Let_def rows_def
      split: prod.splits option.splits)

lemma update_composition_closing:
  "update_composition sys (I\<lparr>benk := u\<rparr>, st) = closing_result sys u I st"
  by (simp add: update_composition_def closing_result_def Let_def split: prod.splits)

lemma step_tfinal_closing:
  assumes "step_sizes_agree I st"
    and "ode_integrate sys (Impl_function sys) (jacobian sys) t (benk (step_members I st)) tfinal
           (step_members I st, st) = ((e1, t1, u1), (I1, st1))"
  shows "step_tfinal sys t tfinal (I, st) =
     (case e1 of
        Some e \<Rightarrow> ((Some e, t1), (I1\<lparr>benk := u1\<rparr>, st1))
      | None \<Rightarrow> ((fst (closing_result sys u1 I1 st1), t1), snd (closing_result sys u1 I1 st1)))"
  by (simp add: step_tfinal_integrates[OF assms(1,2)] update_composition_closing
      split: option.splits)

lemma solve_initialize_fails:
  assumes "initialize sys t (I, st) = (Some e, w)"
  shows "solve sys t dt (I, st) = Some (Some e, w)"
  using assms by (simp add: solve_def solveWithOutput_def solveWithoutOutput_def)

lemma solveWithoutOutput_closing:
  assumes "initialize sys t (I, st) = (None, (Ii, sti))"
    and "ode_solve sys (Impl_function sys) (jacobian sys) t dt (benk Ii) (Ii, sti) =
           ((e1, u1), (I1, st1))"
  shows "solveWithoutOutput sys t dt (I, st) =
     (case e1 of
        Some e \<Rightarrow> (Some e, (I1\<lparr>benk := u1\<rparr>, st1))
      | None \<Rightarrow> closing_result sys u1 I1 st1)"
  using assms
  by (simp add: solveWithoutOutput_def update_composition_closing split: option.splits)

lemma solveWithOutput_closing:
  assumes "initialize sys t (I, st) = (None, wi)"
    and "integrate_loop sys t (dadd t dt) wi = Some (e1, (I1, st1))"
  shows "solveWithOutput sys t dt (I, st) =
     Some (case e1 of
        Some e \<Rightarrow> (Some e, (I1, st1))
      | None \<Rightarrow> closing_result sys (benk I1) I1 st1)"
proof -
  have "update_composition sys (I1, st1) = closing_result sys (benk I1) I1 st1"
    using update_composition_closing[of sys "benk I1" I1 st1] by simp
  with assms(1,2) show ?thesis
    by (simp add: solveWithOutput_def Let_def split: option.splits)
qed

lemma loop_result_last:
  assumes "dless t tfinal"
    and "ode_integrate sys (Impl_function sys) (jacobian sys) t (benk (fst w)) tfinal w =
           ((fst y, t1, u1), (I', snd (snd y)))"
    and "fst (snd y) = I'\<lparr>benk := u1\<rparr>" and "fst y = None \<longrightarrow> \<not> dless t1 tfinal"
  shows "loop_result sys t0 tfinal w0 y"
  unfolding loop_result_def using assms
  by (intro disjI2 exI[of _ t] exI[of _ w] exI[of _ t1] exI[of _ u1] exI[of _ I']) simp

lemma integrate_loop_result:
  assumes "integrate_loop sys t tfinal w = Some y"
  shows "loop_result sys t tfinal w y"
proof (rule integrate_loop.raw_induct[where P = loop_result, OF _ assms])
  fix loop :: "'a Collaborators \<Rightarrow> double \<Rightarrow> double \<Rightarrow> 'a World \<Rightarrow> (error option \<times> 'a World) option"
    and sys t tfinal w y
  assume IH: "\<And>sys t tfinal w y. loop sys t tfinal w = Some y \<Longrightarrow> loop_result sys t tfinal w y"
    and eq: "(if dless t tfinal
      then case ode_integrate sys (Impl_function sys) (jacobian sys) t (benk (fst w)) tfinal w of
             ((None, t, u), I, state) \<Rightarrow> loop sys t tfinal (I\<lparr>benk := u\<rparr>, state)
           | ((Some e, t, u), I, state) \<Rightarrow> Some (Some e, I\<lparr>benk := u\<rparr>, state)
      else Some (None, w)) = Some y"
  show "loop_result sys t tfinal w y"
  proof (cases "dless t tfinal")
    case False
    with eq show ?thesis by (auto simp add: loop_result_def)
  next
    case True
    obtain e2 t2 u2 I2 st2 where r:
      "ode_integrate sys (Impl_function sys) (jacobian sys) t (benk (fst w)) tfinal w =
         ((e2, t2, u2), (I2, st2))"
      by (metis prod.exhaust)
    show ?thesis
    proof (cases e2)
      case (Some x)
      with eq True r have "y = (Some x, (I2\<lparr>benk := u2\<rparr>, st2))" by simp
      with True r Some show ?thesis
        by (intro loop_result_last[of t tfinal sys w y t2 u2 I2]) simp_all
    next
      case None
      with eq True r have l: "loop sys t2 tfinal (I2\<lparr>benk := u2\<rparr>, st2) = Some y"
        by simp
      from IH[OF l, unfolded loop_result_def] show ?thesis
      proof
        assume a: "fst y = None \<and> (I2\<lparr>benk := u2\<rparr>, st2) = snd y \<and> \<not> dless t2 tfinal"
        then have "snd y = (I2\<lparr>benk := u2\<rparr>, st2)" by simp
        then have "snd (snd y) = st2" "fst (snd y) = I2\<lparr>benk := u2\<rparr>" by simp_all
        with a True r None show ?thesis
          by (intro loop_result_last[of t tfinal sys w y t2 u2 I2]) simp_all
      next
        assume "\<exists>t' w' t1 u1 I'. dless t' tfinal
             \<and> ode_integrate sys (Impl_function sys) (jacobian sys) t' (benk (fst w')) tfinal w' =
                 ((fst y, t1, u1), (I', snd (snd y)))
             \<and> fst (snd y) = I'\<lparr>benk := u1\<rparr> \<and> (fst y = None \<longrightarrow> \<not> dless t1 tfinal)"
        then show ?thesis unfolding loop_result_def by (rule disjI2)
      qed
    qed
  qed
qed

lemma demo_initialize_half_two:
  "initialize demo_sys (Fin 0) (demo_Impl, demo_state [Fin (1/2), Fin 2]) =
     (None, (demo_Impl\<lparr>T := Fin 300, P := Fin 100000, ne := [Fin (1/2)], nk := [Fin 2],
               benk := [Fin (1/2), Fin 2]\<rparr>, demo_state [Fin (1/2), Fin 2]))"
  by (simp add: fun_simps demo_simps eigen_simps)

lemma demo_step_fails:
  "step_tfinal demo_sys (Fin 0) (Fin 10)
     (demo_Impl\<lparr>T := Fin 300, P := Fin 100000, ne := [Fin (1/2)], nk := [Fin 2],
        benk := [Fin (1/2), Fin 2]\<rparr>, demo_state [Fin (1/2), Fin 2]) =
     ((Some EquilibriumFailure, Fin 1),
      (demo_Impl\<lparr>T := Fin 300, P := Fin 100000, ne := [Fin (1/2)],
         benk := [Fin (- 1), Fin (7/2)], be := [Fin (- 1)], nk := [Fin (7/2)],
         a := demo_activities (Fin 0) (Fin 0) [Fin (1/2), Fin 2],
         r := demo_rates (Fin 0) (Fin 0) [Fin (1/2), Fin 2]
                (demo_activities (Fin 0) (Fin 0) [Fin (1/2), Fin 2])\<rparr>,
       demo_state [Fin (1/2), Fin (7/2)]))"
  by (simp add: fun_simps demo_simps eigen_simps)

text \<open>
  C3, as the spec states it, fails: in the two-species system, after \<open>initialize\<close> on
  the amounts \<open>[1/2, 2]\<close>, a \<open>step\<close> fails in its final equilibrium solve, and the amount
  of the kinetic species has been changed to \<open>7/2\<close>.
\<close>

theorem step_partial_update_counterexample:
  "fst (initialize demo_sys (Fin 0) (demo_Impl, demo_state [Fin (1/2), Fin 2])) = None
   \<and> fst (fst (step_tfinal demo_sys (Fin 0) (Fin 10)
        (snd (initialize demo_sys (Fin 0) (demo_Impl, demo_state [Fin (1/2), Fin 2])))))
      = Some EquilibriumFailure
   \<and> speciesAmounts (snd (snd (step_tfinal demo_sys (Fin 0) (Fin 10)
        (snd (initialize demo_sys (Fin 0) (demo_Impl, demo_state [Fin (1/2), Fin 2]))))))
      = [Fin (1/2), Fin (7/2)]
   \<and> speciesAmounts (demo_state [Fin (1/2), Fin 2]) = [Fin (1/2), Fin 2]"
  by (simp add: demo_initialize_half_two demo_step_fails) (simp add: demo_simps)

lemmas step_simps = step_sizes_agree_def step_members_def closing_result_def demo_Impl_at_def
  demo_Impl_output_def

lemma result_collapse: "fst x = c \<Longrightarrow> snd (snd x) = s \<Longrightarrow> x = (c, (fst (snd x), s))"
  by (metis prod.collapse)

lemma option_result_collapse:
  "map_option (\<lambda>y. (fst y, snd (snd y))) x = Some (c, s) \<Longrightarrow>
   x = Some (c, (fst (snd (the x)), s))"
  by (cases x) auto

lemma demo_loop:
  "map_option (\<lambda>y. (fst y, snd (snd y), benk (fst (snd y)), Ee (fst (snd y)), Nk (fst (snd y)),
        ispecies_k (fst (snd y))))
     (integrate_loop demo_sys (Fin 0) (Fin (1/10))
        (demo_Impl_output_at (Fin 2) (Fin (1/2)), demo_state [Fin 2, Fin (1/2)])) =
   Some (None, demo_state [Fin 2, Fin (1/2)], [Fin (43/20), Fin (7/20)], 1, 1, [1])"
  apply (subst integrate_loop.simps)
  apply (simp add: demo_Impl_output_at_def step_simps fun_simps demo_simps eigen_simps)
  apply (subst integrate_loop.simps)
  apply simp
  done

text \<open>
  C3, amended. \<open>step\<close> and \<open>solve\<close> undo nothing. When the integrator raises, the call
  fails with \<open>benk\<close> set to the integrator's vector and the chemical state as the
  callbacks left it. When the integrator returns, \<open>be\<close> and \<open>nk\<close> are set to the two
  segments of the integrator's vector, the kinetic species of the state the
  integrator left are set to \<open>nk\<close>, and the call returns what \<open>equilibrium.solve\<close>
  for \<open>be\<close> returns on that state: on success its resolved state, on failure the
  error and whatever state the failed solve left, the kinetic species already
  written. \<open>step\<close> without \<open>tfinal\<close> is \<open>step\<close> with the default final time; \<open>solve\<close>
  does the same after \<open>initialize\<close>, on the vector of \<open>ode.solve\<close> or, with output, on
  the vector of the last \<open>ode.integrate\<close> of its loop, when the loop ends. A \<open>step\<close>
  whose sizes disagree, and a \<open>solve\<close> whose \<open>initialize\<close> fails, fail before the
  integrator is called; the \<open>step\<close> then leaves the chemical state as it was.
\<close>

theorem step_solve_no_rollback:
  "(step_sizes_agree I st \<longrightarrow>
      ode_integrate sys (Impl_function sys) (jacobian sys) t (benk (step_members I st)) tfinal
        (step_members I st, st) = ((e1, t1, u1), (I1, st1)) \<longrightarrow>
      step_tfinal sys t tfinal (I, st) =
        (case e1 of
           Some e \<Rightarrow> ((Some e, t1), (I1\<lparr>benk := u1\<rparr>, st1))
         | None \<Rightarrow> ((fst (closing_result sys u1 I1 st1), t1), snd (closing_result sys u1 I1 st1))))
   \<and> step sys t (I, st) = step_tfinal sys t step_default_tfinal (I, st)
   \<and> (\<not> output_active (options I) \<longrightarrow>
      initialize sys t (I, st) = (None, (Ii, sti)) \<longrightarrow>
      ode_solve sys (Impl_function sys) (jacobian sys) t dt (benk Ii) (Ii, sti) =
        ((e2, u2), (I2, st2)) \<longrightarrow>
      solve sys t dt (I, st) =
        Some (case e2 of
           Some e \<Rightarrow> (Some e, (I2\<lparr>benk := u2\<rparr>, st2))
         | None \<Rightarrow> closing_result sys u2 I2 st2))
   \<and> (output_active (options I) \<longrightarrow>
      initialize sys t (I, st) = (None, wi) \<longrightarrow>
      integrate_loop sys t (dadd t dt) wi = Some (e3, (I3, st3)) \<longrightarrow>
      solve sys t dt (I, st) =
        Some (case e3 of
           Some e \<Rightarrow> (Some e, (I3, st3))
         | None \<Rightarrow> closing_result sys (benk I3) I3 st3)
      \<and> loop_result sys t (dadd t dt) wi (e3, (I3, st3)))
   \<and> (\<not> step_sizes_agree I st \<longrightarrow>
      fst (step_tfinal sys t tfinal (I, st)) = (Some DimensionMismatch, t)
      \<and> snd (snd (step_tfinal sys t tfinal (I, st))) = st)
   \<and> (initialize sys t (I, st) = (Some e4, w4) \<longrightarrow>
      solve sys t dt (I, st) = Some (Some e4, w4))"
proof (intro conjI impI)
  assume "\<not> step_sizes_agree I st"
  then show "fst (step_tfinal sys t tfinal (I, st)) = (Some DimensionMismatch, t)"
    "snd (snd (step_tfinal sys t tfinal (I, st))) = st"
    by (simp_all add: step_tfinal_sizes_disagree_result)
next
  assume "initialize sys t (I, st) = (Some e4, w4)"
  then show "solve sys t dt (I, st) = Some (Some e4, w4)"
    by (rule solve_initialize_fails)
next
  assume "step_sizes_agree I st"
    and "ode_integrate sys (Impl_function sys) (jacobian sys) t (benk (step_members I st)) tfinal
        (step_members I st, st) = ((e1, t1, u1), (I1, st1))"
  then show "step_tfinal sys t tfinal (I, st) =
        (case e1 of
           Some e \<Rightarrow> ((Some e, t1), (I1\<lparr>benk := u1\<rparr>, st1))
         | None \<Rightarrow> ((fst (closing_result sys u1 I1 st1), t1), snd (closing_result sys u1 I1 st1)))"
    by (rule step_tfinal_closing)
next
  show "step sys t (I, st) = step_tfinal sys t step_default_tfinal (I, st)"
    by (simp add: step_def)
next
  assume "\<not> output_active (options I)"
    and "initialize sys t (I, st) = (None, (Ii, sti))"
    and "ode_solve sys (Impl_function sys) (jacobian sys) t dt (benk Ii) (Ii, sti) =
        ((e2, u2), (I2, st2))"
  then show "solve sys t dt (I, st) =
        Some (case e2 of
           Some e \<Rightarrow> (Some e, (I2\<lparr>benk := u2\<rparr>, st2))
         | None \<Rightarrow> closing_result sys u2 I2 st2)"
    by (simp add: solve_def solveWithoutOutput_closing)
next
  assume "output_active (options I)"
    and "initialize sys t (I, st) = (None, wi)"
    and "integrate_loop sys t (dadd t dt) wi = Some (e3, (I3, st3))"
  then show "solve sys t dt (I, st) =
        Some (case e3 of
           Some e \<Rightarrow> (Some e, (I3, st3))
         | None \<Rightarrow> closing_result sys (benk I3) I3 st3)"
    by (simp add: solve_def solveWithOutput_closing)
next
  assume "integrate_loop sys t (dadd t dt) wi = Some (e3, (I3, st3))"
  then show "loop_result sys t (dadd t dt) wi (e3, (I3, st3))"
    by (rule integrate_loop_result)
qed

theorem step_solve_no_rollback_witness:
  "step_sizes_agree (demo_Impl_at (Fin 2) (Fin (1/2))) (demo_state [Fin 2, Fin (1/2)])
   \<and> fst (step_tfinal demo_sys (Fin 0) (Fin (1/10))
        (demo_Impl_at (Fin 2) (Fin (1/2)), demo_state [Fin 2, Fin (1/2)])) = (None, Fin (1/10))
   \<and> snd (snd (step_tfinal demo_sys (Fin 0) (Fin (1/10))
        (demo_Impl_at (Fin 2) (Fin (1/2)), demo_state [Fin 2, Fin (1/2)])))
      = demo_state [Fin (43/20), Fin (7/20)]
   \<and> step_sizes_agree (demo_Impl_at (Fin (1/2)) (Fin 2)) (demo_state [Fin (1/2), Fin 2])
   \<and> fst (step_tfinal demo_sys (Fin 0) (Fin 10)
        (demo_Impl_at (Fin (1/2)) (Fin 2), demo_state [Fin (1/2), Fin 2]))
      = (Some EquilibriumFailure, Fin 1)
   \<and> snd (snd (step_tfinal demo_sys (Fin 0) (Fin 10)
        (demo_Impl_at (Fin (1/2)) (Fin 2), demo_state [Fin (1/2), Fin 2])))
      = demo_state [Fin (1/2), Fin (7/2)]
   \<and> fst (step_tfinal demo_sys (Fin 0) (Fin 10)
        (demo_Impl_at (Fin (- 1)) (Fin 2), demo_state [Fin (- 1), Fin 2]))
      = (Some EquilibriumFailure, Fin 0)
   \<and> map_option (\<lambda>y. (fst y, snd (snd y))) (solve demo_sys (Fin 0) (Fin (1/10))
        (demo_Impl, demo_state [Fin 2, Fin (1/2)]))
      = Some (None, demo_state [Fin (43/20), Fin (7/20)])
   \<and> map_option (\<lambda>y. (fst y, snd (snd y))) (solve demo_sys (Fin 0) (Fin (1/10))
        (demo_Impl_output, demo_state [Fin 2, Fin (1/2)]))
      = Some (None, demo_state [Fin (43/20), Fin (7/20)])"
proof -
  let ?F = "Impl_function demo_sys" and ?J = "jacobian demo_sys"
  \<comment> \<open>a step that completes\<close>
  let ?I = "demo_Impl_at (Fin 2) (Fin (1/2))" and ?st = "demo_state [Fin 2, Fin (1/2)]"
  let ?r = "ode_integrate demo_sys ?F ?J (Fin 0) (benk (step_members ?I ?st)) (Fin (1/10))
      (step_members ?I ?st, ?st)"
  have a1: "step_sizes_agree ?I ?st" by (simp add: step_simps demo_simps eigen_simps)
  have "fst ?r = (None, Fin (1/10), [Fin (43/20), Fin (7/20)])" "snd (snd ?r) = ?st"
    by (simp_all add: step_simps fun_simps demo_simps eigen_simps)
  then have a2: "?r = ((None, Fin (1/10), [Fin (43/20), Fin (7/20)]), (fst (snd ?r), ?st))"
    by (rule result_collapse)
  note c1 = step_solve_no_rollback[THEN conjunct1, rule_format, OF a1 a2]
  have v1: "fst (closing_result demo_sys [Fin (43/20), Fin (7/20)] (fst (snd ?r)) ?st) = None"
    "snd (snd (closing_result demo_sys [Fin (43/20), Fin (7/20)] (fst (snd ?r)) ?st)) =
       demo_state [Fin (43/20), Fin (7/20)]"
    by (simp_all add: step_simps fun_simps demo_simps eigen_simps)
  have r1: "fst (step_tfinal demo_sys (Fin 0) (Fin (1/10)) (?I, ?st)) = (None, Fin (1/10))"
    "snd (snd (step_tfinal demo_sys (Fin 0) (Fin (1/10)) (?I, ?st))) =
       demo_state [Fin (43/20), Fin (7/20)]"
    unfolding c1 by (simp_all add: v1)
  \<comment> \<open>a step whose final equilibrium solve fails\<close>
  let ?I2 = "demo_Impl_at (Fin (1/2)) (Fin 2)" and ?st2 = "demo_state [Fin (1/2), Fin 2]"
  let ?r2 = "ode_integrate demo_sys ?F ?J (Fin 0) (benk (step_members ?I2 ?st2)) (Fin 10)
      (step_members ?I2 ?st2, ?st2)"
  have b1: "step_sizes_agree ?I2 ?st2" by (simp add: step_simps demo_simps eigen_simps)
  have "fst ?r2 = (None, Fin 1, [Fin (- 1), Fin (7/2)])" "snd (snd ?r2) = ?st2"
    by (simp_all add: step_simps fun_simps demo_simps eigen_simps)
  then have b2: "?r2 = ((None, Fin 1, [Fin (- 1), Fin (7/2)]), (fst (snd ?r2), ?st2))"
    by (rule result_collapse)
  note c2 = step_solve_no_rollback[THEN conjunct1, rule_format, OF b1 b2]
  have v2: "fst (closing_result demo_sys [Fin (- 1), Fin (7/2)] (fst (snd ?r2)) ?st2) =
       Some EquilibriumFailure"
    "snd (snd (closing_result demo_sys [Fin (- 1), Fin (7/2)] (fst (snd ?r2)) ?st2)) =
       demo_state [Fin (1/2), Fin (7/2)]"
    by (simp_all add: step_simps fun_simps demo_simps eigen_simps)
  have r2: "fst (step_tfinal demo_sys (Fin 0) (Fin 10) (?I2, ?st2)) = (Some EquilibriumFailure, Fin 1)"
    "snd (snd (step_tfinal demo_sys (Fin 0) (Fin 10) (?I2, ?st2))) =
       demo_state [Fin (1/2), Fin (7/2)]"
    unfolding c2 by (simp_all add: v2)
  \<comment> \<open>a step in which the integrator raises\<close>
  let ?I3 = "demo_Impl_at (Fin (- 1)) (Fin 2)" and ?st3 = "demo_state [Fin (- 1), Fin 2]"
  let ?r3 = "ode_integrate demo_sys ?F ?J (Fin 0) (benk (step_members ?I3 ?st3)) (Fin 10)
      (step_members ?I3 ?st3, ?st3)"
  have d1: "step_sizes_agree ?I3 ?st3" by (simp add: step_simps demo_simps eigen_simps)
  have "fst ?r3 = (Some EquilibriumFailure, Fin 0, [Fin (- 1), Fin 2])" "snd (snd ?r3) = ?st3"
    by (simp_all add: step_simps fun_simps demo_simps eigen_simps)
  then have d2: "?r3 = ((Some EquilibriumFailure, Fin 0, [Fin (- 1), Fin 2]), (fst (snd ?r3), ?st3))"
    by (rule result_collapse)
  note c3 = step_solve_no_rollback[THEN conjunct1, rule_format, OF d1 d2]
  have r3: "fst (step_tfinal demo_sys (Fin 0) (Fin 10) (?I3, ?st3)) = (Some EquilibriumFailure, Fin 0)"
    unfolding c3 by simp
  \<comment> \<open>\<open>solve\<close> without output\<close>
  let ?s4 = "ode_solve demo_sys ?F ?J (Fin 0) (Fin (1/10)) (benk ?I) (?I, ?st)"
  have e0: "\<not> output_active (options demo_Impl)" by (simp add: demo_simps)
  have e1: "initialize demo_sys (Fin 0) (demo_Impl, ?st) = (None, (?I, ?st))"
    by (simp add: step_simps fun_simps demo_simps eigen_simps)
  have "fst ?s4 = (None, [Fin (43/20), Fin (7/20)])" "snd (snd ?s4) = ?st"
    by (simp_all add: step_simps fun_simps demo_simps eigen_simps)
  then have e2: "?s4 = ((None, [Fin (43/20), Fin (7/20)]), (fst (snd ?s4), ?st))"
    by (rule result_collapse)
  note c4 = step_solve_no_rollback[THEN conjunct2, THEN conjunct2, THEN conjunct1, rule_format,
      OF e0 e1 e2]
  have v4: "fst (closing_result demo_sys [Fin (43/20), Fin (7/20)] (fst (snd ?s4)) ?st) = None"
    "snd (snd (closing_result demo_sys [Fin (43/20), Fin (7/20)] (fst (snd ?s4)) ?st)) =
       demo_state [Fin (43/20), Fin (7/20)]"
    by (simp_all add: step_simps fun_simps demo_simps eigen_simps)
  have r4: "map_option (\<lambda>y. (fst y, snd (snd y))) (solve demo_sys (Fin 0) (Fin (1/10))
        (demo_Impl, ?st)) = Some (None, demo_state [Fin (43/20), Fin (7/20)])"
    unfolding c4 by (simp add: v4)
  \<comment> \<open>\<open>solve\<close> with output\<close>
  let ?I5 = "demo_Impl_output_at (Fin 2) (Fin (1/2))"
  let ?l = "integrate_loop demo_sys (Fin 0) (dadd (Fin 0) (Fin (1/10))) (?I5, ?st)"
  have f0: "output_active (options demo_Impl_output)" by (simp add: demo_Impl_output_def)
  have f1: "initialize demo_sys (Fin 0) (demo_Impl_output, ?st) = (None, (?I5, ?st))"
    by (simp add: demo_Impl_output_at_def step_simps fun_simps demo_simps eigen_simps)
  have l: "map_option (\<lambda>y. (fst y, snd (snd y), benk (fst (snd y)), Ee (fst (snd y)),
        Nk (fst (snd y)), ispecies_k (fst (snd y)))) ?l =
      Some (None, ?st, [Fin (43/20), Fin (7/20)], 1, 1, [1])"
    using demo_loop by simp
  then have "map_option (\<lambda>y. (fst y, snd (snd y))) ?l = Some (None, ?st)"
    by (cases ?l) auto
  then have f2: "?l = Some (None, (fst (snd (the ?l)), ?st))"
    by (rule option_result_collapse)
  from l have bk: "benk (fst (snd (the ?l))) = [Fin (43/20), Fin (7/20)]"
    by (cases ?l) auto
  have pk: "Ee (fst (snd (the ?l))) = 1 \<and> Nk (fst (snd (the ?l))) = 1
      \<and> ispecies_k (fst (snd (the ?l))) = [1]"
    using l by (cases ?l) auto
  note c5 = step_solve_no_rollback[THEN conjunct2, THEN conjunct2, THEN conjunct2,
      THEN conjunct1, rule_format, OF f0 f1 f2, THEN conjunct1]
  have r5: "map_option (\<lambda>y. (fst y, snd (snd y))) (solve demo_sys (Fin 0) (Fin (1/10))
        (demo_Impl_output, ?st)) = Some (None, demo_state [Fin (43/20), Fin (7/20)])"
    unfolding c5 using pk bk
    by (simp add: closing_result_def demo_simps eigen_simps)
  show ?thesis
    using a1 r1 b1 r2 r3 r4 r5 by simp
qed

section \<open>Temperature and pressure after \<open>initialize\<close>\<close>

lemma Impl_function_keeps_T_P:
  "T (fst (snd (Impl_function sys t u res w))) = T (fst w)
   \<and> P (fst (snd (Impl_function sys t u res w))) = P (fst w)"
  by (cases w) (simp add: Impl_function_def Let_def split: prod.splits option.splits)

lemma jacobian_keeps_T_P:
  "T (fst (snd (jacobian sys t u res w))) = T (fst w)
   \<and> P (fst (snd (jacobian sys t u res w))) = P (fst w)"
  by (cases w) (simp add: jacobian_def Let_def split: prod.splits option.splits)

lemma update_composition_keeps_T_P:
  "T (fst (snd (update_composition sys w))) = T (fst w)
   \<and> P (fst (snd (update_composition sys w))) = P (fst w)"
  by (cases w) (simp add: update_composition_def Let_def split: prod.splits)

lemma setPartition_keeps_T_P:
  assumes "setPartition sys part I = Inr J"
  shows "T J = T I \<and> P J = P I"
  using assms
  by (simp add: setPartition_def Let_def split: if_splits)
     (erule conjE, drule sym[of _ J], simp)+

lemma integrate_keeps_T_P:
  assumes "callbacks_only sys"
  shows "T (fst (snd (ode_integrate sys (Impl_function sys) (jacobian sys) t u tfinal w))) = T (fst w)
       \<and> P (fst (snd (ode_integrate sys (Impl_function sys) (jacobian sys) t u tfinal w))) = P (fst w)"
proof -
  let ?Inv = "\<lambda>w'. T (fst w') = T (fst w) \<and> P (fst w') = P (fst w)"
  have "?Inv (snd (ode_integrate sys (Impl_function sys) (jacobian sys) t u tfinal w))"
    using assms[unfolded callbacks_only_def, rule_format, of ?Inv w "Impl_function sys" "jacobian sys"]
    by (simp add: Impl_function_keeps_T_P jacobian_keeps_T_P)
  then show ?thesis .
qed

lemma step_tfinal_keeps_T_P:
  assumes "callbacks_only sys"
  shows "T (fst (snd (step_tfinal sys t tfinal w))) = T (fst w)
       \<and> P (fst (snd (step_tfinal sys t tfinal w))) = P (fst w)"
proof -
  obtain I st where w: "w = (I, st)" by (cases w)
  show ?thesis
  proof (cases "step_sizes_agree I st")
    case False
    from step_tfinal_sizes_disagree[OF False, of sys t tfinal] show ?thesis
      by (auto simp add: w)
  next
    case True
    have Ip: "T (step_members I st) = T I" "P (step_members I st) = P I"
      by (simp_all add: step_members_def)
    note k = integrate_keeps_T_P[OF assms, of t "benk (step_members I st)" tfinal
        "(step_members I st, st)"]
    obtain e1 t1 u1 I1 st1 where r:
      "ode_integrate sys (Impl_function sys) (jacobian sys) t (benk (step_members I st)) tfinal
         (step_members I st, st) = ((e1, t1, u1), (I1, st1))"
      by (metis prod.exhaust)
    from k r Ip have I1: "T I1 = T I" "P I1 = P I" by simp_all
    note uc = update_composition_keeps_T_P[of sys "(I1\<lparr>benk := u1\<rparr>, st1)"]
    show ?thesis
      using I1 uc by (simp add: w step_tfinal_integrates[OF True r] split: option.splits)
  qed
qed

lemma reachable_T_P:
  assumes "callbacks_only sys" and "reachable sys w0 w"
  shows "T (fst w) = T (fst w0) \<and> P (fst w) = P (fst w0)"
  using assms(2)
proof (induction rule: reachable.induct)
  case start
  show ?case by simp
next
  case (state_changed I state state')
  then show ?case by simp
next
  case (function_called w t u res)
  then show ?case by (simp add: Impl_function_keeps_T_P)
next
  case (jacobian_called w t u resm)
  then show ?case by (simp add: jacobian_keeps_T_P)
next
  case (step_called w t tfinal)
  then show ?case by (simp add: step_tfinal_keeps_T_P[OF assms(1)])
next
  case (partition_set I state part J)
  then show ?case using setPartition_keeps_T_P[of sys part I J] by simp
next
  case (options_set I state opts)
  then show ?case by simp
next
  case (integrator_changed I state x)
  then show ?case by simp
qed

lemma demo_integrate_callbacks_only:
  "ode_integrate sys = demo_integrate \<Longrightarrow> callbacks_only sys"
  unfolding callbacks_only_def
proof (intro allI impI)
  fix Inv :: "unit World \<Rightarrow> bool" and f :: "unit ODEFunction" and j :: "unit ODEJacobian"
    and t :: double and u :: Vector and tfinal :: double and w :: "unit World"
  assume oi: "ode_integrate sys = demo_integrate" and w: "Inv w"
    and f: "\<forall>t' u' res' w'. Inv w' \<longrightarrow> Inv (snd (f t' u' res' w'))"
  obtain c rs w' where fr: "f t u (replicate (length u) (Fin 0)) w = ((c, rs), w')"
    by (metis prod.exhaust)
  from f w have "Inv (snd (f t u (replicate (length u) (Fin 0)) w))" by blast
  then have "Inv w'" by (simp add: fr)
  then show "Inv (snd (ode_integrate sys f j t u tfinal w))"
    by (simp add: oi demo_integrate_def Let_def fr split: sum.splits)
qed

lemma demo_TP_initialize:
  "initialize demo_sys_TP (Fin 0) (demo_Impl, demo_state [Fin 2, Fin 2]) =
     (None, (demo_Impl_initialized, demo_state [Fin 2, Fin 2]))"
  by (simp add: initialize_def Let_def demo_sys_TP_def demo_Impl_initialized_def demo_simps eigen_simps)

lemma demo_TP_first_call:
  "Impl_function demo_sys_TP (Fin 0) [Fin 1, Fin 3] [Fin 0, Fin 0]
     (demo_Impl_initialized, demo_state_hot [Fin 2, Fin 2]) =
   ((Inr 0, [Fin (- 600), Fin 600]), (demo_Impl_TP_called, demo_state_hot [Fin 1, Fin 3]))"
  by (simp add: Impl_function_def Let_def demo_sys_TP_def demo_Impl_initialized_def
      demo_Impl_TP_called_def demo_state_hot_def demo_simps eigen_simps)

lemma demo_TP_second_call:
  "Impl_function demo_sys_TP (Fin 1) [Fin 2, Fin 5] [Fin 0, Fin 0]
     (demo_Impl_TP_called, demo_state_hot [Fin 1, Fin 3]) =
   ((Inr 0, [Fin (- 900), Fin 900]),
    (demo_Impl_initialized\<lparr>be := [Fin 2], nk := [Fin 5],
       a := \<lparr>val = [Fin 200000, Fin 500000],
              ddn = \<lparr>nrows = 2, ncols = 2, coeffs = [[Fin 100000, Fin 0], [Fin 0, Fin 100000]]\<rparr>\<rparr>,
       r := \<lparr>val = [Fin 900],
              ddn = \<lparr>nrows = 1, ncols = 2, coeffs = [[Fin (- 300), Fin 300]]\<rparr>\<rparr>\<rparr>,
     demo_state_hot [Fin 2, Fin 5]))"
  by (simp add: Impl_function_def Let_def demo_sys_TP_def demo_Impl_initialized_def
      demo_Impl_TP_called_def demo_state_hot_def demo_simps eigen_simps)

text \<open>
  C10. For an integrator that changes the members only through the callbacks: at
  every members and state met after \<open>initialize\<close> (whatever the caller did to the
  chemical state, the options and the partition, and whatever calls of \<open>function\<close>,
  \<open>jacobian\<close> and \<open>step\<close> came between), a call of \<open>function\<close> that returns 0 has
  evaluated the activities and the rates at the temperature and pressure that the
  state had when \<open>initialize\<close> ran, and the members \<open>T\<close> and \<open>P\<close> are these before
  and after the call.
\<close>

theorem function_temperature_pressure:
  assumes init: "initialize sys tstart (I0, st0) = (None, (I1, st1))"
    and co: "callbacks_only sys"
    and re: "reachable sys (I1, st1) (I, st)"
    and ok: "fst (fst (Impl_function sys t u res (I, st))) = Inr 0"
  shows "a (fst (snd (Impl_function sys t u res (I, st)))) =
           activities sys (temperature st0) (pressure st0)
             (speciesAmounts (snd (snd (Impl_function sys t u res (I, st)))))
       \<and> r (fst (snd (Impl_function sys t u res (I, st)))) =
           rates sys (temperature st0) (pressure st0)
             (speciesAmounts (snd (snd (Impl_function sys t u res (I, st)))))
             (a (fst (snd (Impl_function sys t u res (I, st)))))
       \<and> T I = temperature st0 \<and> P I = pressure st0
       \<and> T (fst (snd (Impl_function sys t u res (I, st)))) = temperature st0
       \<and> P (fst (snd (Impl_function sys t u res (I, st)))) = pressure st0"
proof -
  from init have "T I1 = temperature st0 \<and> P I1 = pressure st0"
    by (simp add: initialize_def Let_def split: if_splits) (erule conjE, drule sym[of _ I1], simp)+
  with reachable_T_P[OF co re] have TP': "T I = temperature st0" "P I = pressure st0" by simp_all
  from ok show ?thesis
    by (simp add: Impl_function_def Let_def TP' split: if_splits prod.splits option.splits)
qed

theorem function_temperature_pressure_witness:
  "initialize demo_sys_TP (Fin 0) (demo_Impl, demo_state [Fin 2, Fin 2]) =
     (None, (demo_Impl_initialized, demo_state [Fin 2, Fin 2]))
   \<and> callbacks_only demo_sys_TP
   \<and> temperature (demo_state [Fin 2, Fin 2]) = Fin 300
   \<and> pressure (demo_state [Fin 2, Fin 2]) = Fin 100000
   \<and> temperature (demo_state_hot [Fin 1, Fin 3]) = Fin 400
   \<and> pressure (demo_state_hot [Fin 1, Fin 3]) = Fin 1
   \<and> reachable demo_sys_TP (demo_Impl_initialized, demo_state [Fin 2, Fin 2])
        (demo_Impl_TP_called, demo_state_hot [Fin 1, Fin 3])
   \<and> val (a (fst (snd (Impl_function demo_sys_TP (Fin 1) [Fin 2, Fin 5] [Fin 0, Fin 0]
        (demo_Impl_TP_called, demo_state_hot [Fin 1, Fin 3]))))) = [Fin 200000, Fin 500000]
   \<and> val (r (fst (snd (Impl_function demo_sys_TP (Fin 1) [Fin 2, Fin 5] [Fin 0, Fin 0]
        (demo_Impl_TP_called, demo_state_hot [Fin 1, Fin 3]))))) = [Fin 900]
   \<and> val (activities demo_sys_TP (Fin 400) (Fin 1) [Fin 2, Fin 5]) = [Fin 2, Fin 5]
   \<and> val (rates demo_sys_TP (Fin 400) (Fin 1) [Fin 2, Fin 5]
        (activities demo_sys_TP (Fin 400) (Fin 1) [Fin 2, Fin 5])) = [Fin 1200]"
proof -
  let ?w0 = "(demo_Impl_initialized, demo_state [Fin 2, Fin 2])"
  let ?w2 = "Impl_function demo_sys_TP (Fin 1) [Fin 2, Fin 5] [Fin 0, Fin 0]
        (demo_Impl_TP_called, demo_state_hot [Fin 1, Fin 3])"
  have h1: "initialize demo_sys_TP (Fin 0) (demo_Impl, demo_state [Fin 2, Fin 2]) = (None, ?w0)"
    by (rule demo_TP_initialize)
  have h2: "callbacks_only demo_sys_TP"
    by (rule demo_integrate_callbacks_only) (simp add: demo_sys_TP_def demo_sys_def)
  have "reachable demo_sys_TP ?w0 (demo_Impl_initialized, demo_state_hot [Fin 2, Fin 2])"
    by (rule reachable.state_changed) (rule reachable.start)
  then have "reachable demo_sys_TP ?w0
      (snd (Impl_function demo_sys_TP (Fin 0) [Fin 1, Fin 3] [Fin 0, Fin 0]
           (demo_Impl_initialized, demo_state_hot [Fin 2, Fin 2])))"
    by (rule reachable.function_called)
  then have h3: "reachable demo_sys_TP ?w0 (demo_Impl_TP_called, demo_state_hot [Fin 1, Fin 3])"
    by (simp only: demo_TP_first_call snd_conv)
  have h4: "fst (fst ?w2) = Inr 0"
    by (simp only: demo_TP_second_call fst_conv)
  note c = function_temperature_pressure[OF h1 h2 h3 h4]
  have t: "temperature (demo_state [Fin 2, Fin 2]) = Fin 300"
    "pressure (demo_state [Fin 2, Fin 2]) = Fin 100000"
    "temperature (demo_state_hot [Fin 1, Fin 3]) = Fin 400"
    "pressure (demo_state_hot [Fin 1, Fin 3]) = Fin 1"
    by (simp_all add: demo_simps demo_state_hot_def)
  have v: "val (activities demo_sys_TP (Fin 300) (Fin 100000) [Fin 2, Fin 5]) = [Fin 200000, Fin 500000]"
    "val (rates demo_sys_TP (Fin 300) (Fin 100000) [Fin 2, Fin 5]
        (activities demo_sys_TP (Fin 300) (Fin 100000) [Fin 2, Fin 5])) = [Fin 900]"
    "val (activities demo_sys_TP (Fin 400) (Fin 1) [Fin 2, Fin 5]) = [Fin 2, Fin 5]"
    "val (rates demo_sys_TP (Fin 400) (Fin 1) [Fin 2, Fin 5]
        (activities demo_sys_TP (Fin 400) (Fin 1) [Fin 2, Fin 5])) = [Fin 1200]"
    by (simp_all add: demo_sys_TP_def demo_sys_def)
  have st2: "speciesAmounts (snd (snd ?w2)) = [Fin 2, Fin 5]"
    by (simp only: demo_TP_second_call snd_conv) (simp add: demo_state_hot_def)
  from c have c1: "val (a (fst (snd ?w2))) = [Fin 200000, Fin 500000]"
    and c2: "val (r (fst (snd ?w2))) = [Fin 900]"
    by (simp_all add: t st2 v)
  show ?thesis
    using h1 h2 t h3 c1 c2 v(3,4) by simp
qed

section \<open>\<open>step\<close> at zero rates\<close>


lemma cols_assign_dims [simp]:
  "nrows (leftCols_assign M k X) = nrows M" "ncols (leftCols_assign M k X) = ncols M"
  "nrows (rightCols_assign M k X) = nrows M" "ncols (rightCols_assign M k X) = ncols M"
  by (simp_all add: leftCols_assign_def rightCols_assign_def)







end
